theory Spec2Isabelle
  imports Main "HOL-Library.AList" "HOL-Library.Sublist" "HOL-Library.Word"
begin

section \<open>Data model of the consolidator\<close>

text \<open>
  The development embeds \<^verbatim>\<open>src/tools/consolidator/consolidator.ts\<close> and
  \<^verbatim>\<open>src/tools/consolidator/interactions/mint.ts\<close>. Record fields carry a short
  prefix of their type (\<open>rm_\<close> for Remark, \<open>nc_\<close> for NFTConsolidated, \<open>cc_\<close> for
  CollectionConsolidated, \<open>c_\<close> and \<open>n_\<close> for the class instances, \<open>ic_\<close> for
  InvalidCall, \<open>res_\<close> for ConsolidatorReturnType), since the source reuses the names
  \<open>id\<close>, \<open>block\<close>, \<open>nfts\<close> and \<open>collections\<close> across its types.

  A JavaScript \<open>number\<close> that holds a block height, a flag or a cap is an \<open>int\<close>; a
  \<open>bigint\<close> is an \<open>int\<close>; an optional field is an \<open>option\<close>; a thrown \<open>Error\<close> is
  \<open>Inl message\<close> of a sum, a normal return is \<open>Inr\<close>.
\<close>

text \<open>The enum \<open>OP_TYPES\<close> of \<^verbatim>\<open>../constants\<close>: the eight members the engine names.\<close>

datatype OP_TYPES = BUY | LIST | MINT | MINTNFT | SEND | EMOTE | CHANGEISSUER | CONSUME

text \<open>Types the source imports but only stores and passes on.\<close>

typedecl Change
typedecl NFTMetadata
typedecl CollectionMetadata

type_synonym Reactionmap = "(string \<times> string list) list"

text \<open>\<open>Remark\<close> of \<^verbatim>\<open>./remark\<close>: the four fields the engine reads.\<close>

record Remark =
  rm_block :: int
  rm_caller :: string
  rm_interaction_type :: string
  rm_remark :: string

text \<open>\<open>interface NFTConsolidated\<close>, consolidator.ts lines 44-61.\<close>

record NFTConsolidated =
  nc_id :: string
  nc_block :: int
  nc_collection :: string
  nc_name :: string
  nc_instance :: string
  nc_transferable :: int
  nc_sn :: string
  nc_metadata :: "string option"
  nc_data :: "string option"
  nc_forsale :: int
  nc_reactions :: Reactionmap
  nc_changes :: "Change list"
  nc_owner :: string
  nc_loadedMetadata :: "NFTMetadata option"
  nc_burned :: string
  nc_updatedAtBlock :: "int option"

text \<open>\<open>interface CollectionConsolidated\<close>, consolidator.ts lines 63-74.\<close>

record CollectionConsolidated =
  cc_block :: int
  cc_name :: string
  cc_max :: int
  cc_issuer :: string
  cc_symbol :: string
  cc_id :: string
  cc_metadata :: string
  cc_changes :: "Change list"
  cc_loadedMetadata :: "CollectionMetadata option"
  cc_updatedAtBlock :: "int option"

text \<open>
  Modelled from the spec: the classes \<open>Collection\<close> and \<open>NFT\<close> of
  \<^verbatim>\<open>rmrk1.0.0/classes\<close> are not under src/. Their fields are those of section 3 of
  the specification, which the two consolidated interfaces above mirror. The engine itself
  reads only \<open>collection.id\<close>, \<open>collection.symbol\<close> and \<open>nft.collection\<close>.
\<close>

record Collection =
  c_block :: int
  c_name :: string
  c_max :: int
  c_issuer :: string
  c_symbol :: string
  c_id :: string
  c_metadata :: string
  c_changes :: "Change list"

record NFT =
  n_block :: int
  n_collection :: string
  n_name :: string
  n_instance :: string
  n_transferable :: int
  n_sn :: string
  n_metadata :: "string option"
  n_data :: "string option"
  n_forsale :: int
  n_reactions :: Reactionmap
  n_changes :: "Change list"
  n_owner :: string
  n_burned :: string
  n_updatedAtBlock :: "int option"

text \<open>
  Modelled from the spec: the payload classes \<open>Send\<close>, \<open>List\<close>, \<open>Consume\<close>, \<open>Buy\<close>,
  \<open>Emote\<close> and \<open>ChangeIssuer\<close> are not under src/. Sections 4.4 to 4.9 of the
  specification give their content; the engine reads only their \<open>id\<close>.
\<close>

record Send =
  send_id :: string
  send_recipient :: string

record List =
  list_id :: string
  list_price :: int

record Consume =
  consume_id :: string

record Buy =
  buy_id :: string

record Emote =
  emote_id :: string
  emote_unicode :: string

record ChangeIssuer =
  ci_id :: string
  ci_issuer :: string

text \<open>\<open>type InvalidCall\<close>, consolidator.ts lines 566-572.\<close>

record InvalidCall =
  ic_message :: string
  ic_caller :: string
  ic_block :: int
  ic_object_id :: string
  ic_op_type :: string

text \<open>
  \<open>type InteractionChanges\<close>, line 34: a list of objects, each with the single key the
  engine writes, \<open>{ [OP_TYPES.X]: id }\<close>; an entry is the pair of that key and the id.
\<close>

type_synonym InteractionChanges = "(OP_TYPES \<times> string) list"

text \<open>\<open>type ConsolidatorReturnType\<close>, lines 36-42.\<close>

record ConsolidatorReturnType =
  res_nfts :: "NFTConsolidated list"
  res_collections :: "CollectionConsolidated list"
  res_invalid :: "InvalidCall list"
  res_changes :: "InteractionChanges option"
  res_lastBlock :: "int option"

section \<open>What the engine imports\<close>

text \<open>
  The parsers, the validation rules, the id helpers and the address codec are imported by
  consolidator.ts and mint.ts from files that are not under src/. The engine is embedded
  over a record of them, so every theorem holds for whatever they compute.
  \<^item> \<open>OP\<close> gives the string value of each \<open>OP_TYPES\<close> member.
  \<^item> A \<open>fromRemark\<close> parser returns a string (\<open>Inl\<close>) when it fails and the entity
    (\<open>Inr\<close>) otherwise; the source tests \<open>typeof x === "string"\<close>.
  \<^item> A function the source calls inside \<open>try\<close> may throw: \<open>Inl message\<close>. The
    interaction validators mutate the instance they are given; the model returns it as it
    is after the call, and where a validator throws, the \<open>catch\<close> block sees the
    instance as it was before the call.
  \<^item> A function the source calls outside \<open>try\<close> and whose result it uses directly
    (\<open>getId\<close>, the two \<open>consolidated...ToInstance\<close> converters) is total here. Where
    such a call, or a call of a \<open>fromRemark\<close> parser, throws is the subject of the record
    \<open>Throws\<close> and of the second embedding of the handlers over it, further down.
\<close>

record Deps =
  OP :: "OP_TYPES \<Rightarrow> string"
  Collection_fromRemark :: "string \<Rightarrow> int \<Rightarrow> string + Collection"
  Collection_generateId :: "string \<Rightarrow> string \<Rightarrow> string + string"
  NFT_fromRemark :: "string \<Rightarrow> int \<Rightarrow> string + NFT"
  NFT_getId :: "NFT \<Rightarrow> string"
  Send_fromRemark :: "string \<Rightarrow> string + Send"
  List_fromRemark :: "string \<Rightarrow> string + List"
  Consume_fromRemark :: "string \<Rightarrow> string + Consume"
  Buy_fromRemark :: "string \<Rightarrow> string + Buy"
  Emote_fromRemark :: "string \<Rightarrow> string + Emote"
  getChangeIssuerEntity :: "Remark \<Rightarrow> string + ChangeIssuer"
  decodeAddress :: "string \<Rightarrow> string + 8 word list"
  u8aToHex :: "8 word list \<Rightarrow> string"
  validateMintNFT :: "Remark \<Rightarrow> NFT \<Rightarrow> Collection option \<Rightarrow> string + NFT"
  sendInteraction :: "Remark \<Rightarrow> Send \<Rightarrow> NFT option \<Rightarrow> string + NFT option"
  listForSaleInteraction :: "Remark \<Rightarrow> List \<Rightarrow> NFT option \<Rightarrow> string + NFT option"
  consumeInteraction :: "Remark \<Rightarrow> Consume \<Rightarrow> NFT option \<Rightarrow> string + NFT option"
  buyInteraction :: "Remark \<Rightarrow> Buy \<Rightarrow> NFT option \<Rightarrow> int option \<Rightarrow> string + NFT option"
  emoteInteraction :: "Remark \<Rightarrow> Emote \<Rightarrow> NFT option \<Rightarrow> bool \<Rightarrow> string + NFT option"
  changeIssuerInteraction ::
    "Remark \<Rightarrow> ChangeIssuer \<Rightarrow> Collection option \<Rightarrow> string + Collection option"
  consolidatedCollectionToInstance :: "CollectionConsolidated option \<Rightarrow> Collection option"
  consolidatedNFTtoInstance :: "NFTConsolidated option \<Rightarrow> NFT option"

text \<open>
  \<open>IConsolidatorAdapter\<close> of \<^verbatim>\<open>./adapters/types\<close>, as the engine calls it: the methods
  of an adapter over its own state \<open>'s\<close>. A reader returns what it finds or throws; a
  writer returns the new state or throws, leaving the state as it was. The two bulk readers
  are optional members.
\<close>

record 's IConsolidatorAdapter =
  getCollectionById :: "'s \<Rightarrow> string \<Rightarrow> string + CollectionConsolidated option"
  getNFTById :: "'s \<Rightarrow> string \<Rightarrow> string + NFTConsolidated option"
  getNFTByIdUnique :: "'s \<Rightarrow> string \<Rightarrow> string + NFTConsolidated option"
  updateCollectionMint :: "'s \<Rightarrow> Collection \<Rightarrow> string + 's"
  updateNFTMint :: "'s \<Rightarrow> NFT \<Rightarrow> int \<Rightarrow> string + 's"
  updateNFTSend :: "'s \<Rightarrow> NFT \<Rightarrow> NFTConsolidated \<Rightarrow> int \<Rightarrow> string + 's"
  updateNFTList :: "'s \<Rightarrow> NFT \<Rightarrow> NFTConsolidated \<Rightarrow> int \<Rightarrow> string + 's"
  updateNFTConsume :: "'s \<Rightarrow> NFT \<Rightarrow> NFTConsolidated \<Rightarrow> int \<Rightarrow> string + 's"
  updateNFTBuy :: "'s \<Rightarrow> NFT \<Rightarrow> NFTConsolidated \<Rightarrow> int \<Rightarrow> string + 's"
  updateNFTEmote :: "'s \<Rightarrow> NFT \<Rightarrow> NFTConsolidated \<Rightarrow> int \<Rightarrow> string + 's"
  updateCollectionIssuer :: "'s \<Rightarrow> Collection \<Rightarrow> CollectionConsolidated \<Rightarrow> int \<Rightarrow> string + 's"
  getAllNFTs :: "('s \<Rightarrow> string + NFTConsolidated list) option"
  getAllCollections :: "('s \<Rightarrow> string + CollectionConsolidated list) option"

datatype AdapterMethod =
  M_getCollectionById | M_getNFTById | M_getNFTByIdUnique
  | M_updateCollectionMint | M_updateNFTMint | M_updateNFTSend | M_updateNFTList
  | M_updateNFTConsume | M_updateNFTBuy | M_updateNFTEmote | M_updateCollectionIssuer
  | M_getAllNFTs | M_getAllCollections

section \<open>The Consolidator class\<close>

text \<open>
  The fields of \<open>class Consolidator\<close> (lines 77-84); \<open>dbAdapter\<close> is the state of the
  adapter object, whose methods are passed to each function as \<open>ad\<close>. Two more components
  record what the engine does to the outside and are no fields of the class:
  \<open>adapterCalls\<close>, the adapter methods invoked so far, in order, and \<open>console\<close>, the lines
  written with \<open>console.error\<close>.
\<close>

record 's Consolidator =
  invalidCalls :: "InvalidCall list"
  collections :: "Collection list"
  nfts :: "NFT list"
  dbAdapter :: 's
  ss58Format :: "int option"
  emitEmoteChanges :: bool
  emitInteractionChanges :: bool
  interactionChanges :: InteractionChanges
  adapterCalls :: "AdapterMethod list"
  console :: "string list"

text \<open>
  The constructor, lines 92-109. \<open>if (ss58Format)\<close> is false for an omitted argument and
  for 0; \<open>x || false\<close> is false for an omitted flag. The adapter is passed explicitly: where
  the caller omits it the source builds \<open>new InMemoryAdapter()\<close>.
\<close>

definition Consolidator_new ::
  "int option \<Rightarrow> 's \<Rightarrow> bool option \<Rightarrow> bool option \<Rightarrow> 's Consolidator" where
  "Consolidator_new ss58 adapter emitEmote emitInteraction =
     \<lparr> invalidCalls = [], collections = [], nfts = [], dbAdapter = adapter,
       ss58Format = (case ss58 of None \<Rightarrow> None | Some n \<Rightarrow> if n \<noteq> 0 then Some n else None),
       emitEmoteChanges = (case emitEmote of None \<Rightarrow> False | Some b \<Rightarrow> b),
       emitInteractionChanges = (case emitInteraction of None \<Rightarrow> False | Some b \<Rightarrow> b),
       interactionChanges = [], adapterCalls = [], console = [] \<rparr>"

text \<open>
  \<open>updateInvalidCalls\<close>, lines 111-128: the closure it returns, applied to \<open>object_id\<close>
  and \<open>message\<close>, pushes one entry onto \<open>invalidCalls\<close>.
\<close>

definition updateInvalidCalls ::
  "Deps \<Rightarrow> OP_TYPES \<Rightarrow> Remark \<Rightarrow> string \<Rightarrow> string \<Rightarrow> 's Consolidator \<Rightarrow> 's Consolidator" where
  "updateInvalidCalls env op_type remark object_id message this =
     this\<lparr>invalidCalls := invalidCalls this @
       [\<lparr> ic_message = message, ic_caller = rm_caller remark, ic_block = rm_block remark,
          ic_object_id = object_id, ic_op_type = OP env op_type \<rparr>]\<rparr>"

text \<open>\<open>if (this.emitInteractionChanges) this.interactionChanges.push({ [op]: id })\<close>.\<close>

definition pushInteractionChange :: "OP_TYPES \<Rightarrow> string \<Rightarrow> 's Consolidator \<Rightarrow> 's Consolidator" where
  "pushInteractionChange op_type entity_id this =
     (if emitInteractionChanges this
      then this\<lparr>interactionChanges := interactionChanges this @ [(op_type, entity_id)]\<rparr>
      else this)"

text \<open>
  An awaited adapter read: a throw rejects the handler's promise (\<open>Inl\<close>), since every
  read stands outside \<open>try\<close>. An awaited adapter write stands inside \<open>try\<close>: the result
  is the message caught, if any, and the instance after the call.
\<close>

definition adapterRead ::
  "AdapterMethod \<Rightarrow> ('s \<Rightarrow> string + 'a) \<Rightarrow> 's Consolidator \<Rightarrow> string + ('a \<times> 's Consolidator)" where
  "adapterRead m f this =
     (case f (dbAdapter this) of
        Inl e \<Rightarrow> Inl e
      | Inr v \<Rightarrow> Inr (v, this\<lparr>adapterCalls := adapterCalls this @ [m]\<rparr>))"

definition adapterWrite ::
  "AdapterMethod \<Rightarrow> ('s \<Rightarrow> string + 's) \<Rightarrow> 's Consolidator \<Rightarrow> string option \<times> 's Consolidator" where
  "adapterWrite m f this =
     (case f (dbAdapter this) of
        Inl e \<Rightarrow> (Some e, this\<lparr>adapterCalls := adapterCalls this @ [m]\<rparr>)
      | Inr s \<Rightarrow> (None, this\<lparr>dbAdapter := s, adapterCalls := adapterCalls this @ [m]\<rparr>))"

section \<open>interactions/mint.ts\<close>

text \<open>
  \<open>String.prototype.substr(start, length)\<close> and \<open>substring(start)\<close>: a negative start of
  \<open>substr\<close> counts from the end, a negative start of \<open>substring\<close> is 0, and both stop
  at the end of the string.
\<close>

definition substr :: "string \<Rightarrow> int \<Rightarrow> int \<Rightarrow> string" where
  "substr s start len =
     (let n = int (length s);
          b = (if start < 0 then max (n + start) 0 else min start n)
      in take (nat len) (drop (nat b) s))"

definition substring :: "string \<Rightarrow> int \<Rightarrow> string" where
  "substring s start = drop (nat (max 0 start)) s"

definition getCollectionFromRemark :: "Deps \<Rightarrow> Remark \<Rightarrow> string + Collection" where
  "getCollectionFromRemark env remark =
     (case Collection_fromRemark env (rm_remark remark) (rm_block remark) of
        Inl collection \<Rightarrow>
          Inl (''['' @ OP env MINT @ ''] Dead before instantiation: '' @ collection)
      | Inr collection \<Rightarrow> Inr collection)"

definition validateMintIds :: "Deps \<Rightarrow> Collection \<Rightarrow> Remark \<Rightarrow> string + unit" where
  "validateMintIds env collection remark =
     (case decodeAddress env (rm_caller remark) of
        Inl e \<Rightarrow> Inl e
      | Inr pubkey \<Rightarrow>
          (let pubkeyString = u8aToHex env pubkey;
               pubkeyStart = substr pubkeyString 2 8;
               pubkeyEnd = substring pubkeyString (int (length pubkeyString) - 8)
           in case Collection_generateId env (u8aToHex env pubkey) (c_symbol collection) of
                Inl e \<Rightarrow> Inl e
              | Inr gid \<Rightarrow>
                  (let idStart = substr gid 0 8;
                       idEnd = substring gid (int (length pubkeyString) - 8)
                   in if idStart = pubkeyStart \<and> idEnd = pubkeyEnd
                      then Inl (''Caller's pubkey '' @ u8aToHex env pubkey @ '' ('' @ gid
                                @ '') does not match generated ID'')
                      else Inr ())))"

section \<open>The handlers of the engine\<close>

text \<open>
  Each handler returns the boolean the source returns (\<open>true\<close>: the loop runs
  \<open>continue\<close>) and the instance after the call, or \<open>Inl\<close> when its promise rejects.
\<close>

text \<open>\<open>mint\<close>, lines 134-171.\<close>

definition mint ::
  "Deps \<Rightarrow> 's IConsolidatorAdapter \<Rightarrow> Remark \<Rightarrow> 's Consolidator
     \<Rightarrow> string + (bool \<times> 's Consolidator)" where
  "mint env ad remark this =
     (case getCollectionFromRemark env remark of
        Inl e \<Rightarrow> Inr (True, updateInvalidCalls env MINT remark (rm_remark remark) e this)
      | Inr collection \<Rightarrow>
          (case adapterRead M_getCollectionById
                  (\<lambda>s. getCollectionById ad s (c_id collection)) this of
             Inl e \<Rightarrow> Inl e
           | Inr (existingCollection, this1) \<Rightarrow>
               (case existingCollection of
                  Some _ \<Rightarrow>
                    Inr (True, updateInvalidCalls env MINT remark (c_id collection)
                           (''['' @ OP env MINT @ ''] Attempt to mint already existing collection'')
                           this1)
                | None \<Rightarrow>
                    (case validateMintIds env collection remark of
                       Inl e \<Rightarrow>
                         Inr (True, updateInvalidCalls env MINT remark (c_id collection) e this1)
                     | Inr _ \<Rightarrow>
                         (case adapterWrite M_updateCollectionMint
                                 (\<lambda>s. updateCollectionMint ad s collection) this1 of
                            (Some e, this2) \<Rightarrow>
                              Inr (True, updateInvalidCalls env MINT remark (c_id collection) e this2)
                          | (None, this2) \<Rightarrow>
                              Inr (False, pushInteractionChange MINT (c_id collection)
                                     (this2\<lparr>collections := collections this2 @ [collection]\<rparr>)))))))"

text \<open>
  \<open>mintNFT\<close>, lines 177-223. The parent collection is converted to an instance only when
  the adapter found one (lines 205-207).
\<close>

definition mintNFT ::
  "Deps \<Rightarrow> 's IConsolidatorAdapter \<Rightarrow> Remark \<Rightarrow> 's Consolidator
     \<Rightarrow> string + (bool \<times> 's Consolidator)" where
  "mintNFT env ad remark this =
     (case NFT_fromRemark env (rm_remark remark) (rm_block remark) of
        Inl err \<Rightarrow>
          Inr (True, updateInvalidCalls env MINTNFT remark (rm_remark remark)
                 (''['' @ OP env MINTNFT @ ''] Dead before instantiation: '' @ err) this)
      | Inr nft \<Rightarrow>
          (case adapterRead M_getNFTByIdUnique
                  (\<lambda>s. getNFTByIdUnique ad s (NFT_getId env nft)) this of
             Inl e \<Rightarrow> Inl e
           | Inr (exists, this1) \<Rightarrow>
               (case exists of
                  Some _ \<Rightarrow>
                    Inr (True, updateInvalidCalls env MINTNFT remark (NFT_getId env nft)
                           (''['' @ OP env MINTNFT @ ''] Attempt to mint already existing NFT'')
                           this1)
                | None \<Rightarrow>
                    (case adapterRead M_getCollectionById
                            (\<lambda>s. getCollectionById ad s (n_collection nft)) this1 of
                       Inl e \<Rightarrow> Inl e
                     | Inr (nftParentCollection, this2) \<Rightarrow>
                         (let collection =
                                (case nftParentCollection of
                                   Some c \<Rightarrow> consolidatedCollectionToInstance env (Some c)
                                 | None \<Rightarrow> None)
                          in case validateMintNFT env remark nft collection of
                               Inl e \<Rightarrow>
                                 Inr (True, updateInvalidCalls env MINTNFT remark
                                        (NFT_getId env nft) e this2)
                             | Inr nft' \<Rightarrow>
                                 (case adapterWrite M_updateNFTMint
                                         (\<lambda>s. updateNFTMint ad s nft' (rm_block remark)) this2 of
                                    (Some e, this3) \<Rightarrow>
                                      Inr (True, updateInvalidCalls env MINTNFT remark
                                             (NFT_getId env nft') e this3)
                                  | (None, this3) \<Rightarrow>
                                      Inr (False, pushInteractionChange MINTNFT (NFT_getId env nft')
                                             (this3\<lparr>nfts := nfts this3 @ [nft']\<rparr>))))))))"

text \<open>\<open>send\<close>, lines 230-264.\<close>

definition send ::
  "Deps \<Rightarrow> 's IConsolidatorAdapter \<Rightarrow> Remark \<Rightarrow> 's Consolidator
     \<Rightarrow> string + (bool \<times> 's Consolidator)" where
  "send env ad remark this =
     (case Send_fromRemark env (rm_remark remark) of
        Inl err \<Rightarrow>
          Inr (True, updateInvalidCalls env SEND remark (rm_remark remark)
                 (''['' @ OP env SEND @ ''] Dead before instantiation: '' @ err) this)
      | Inr sendEntity \<Rightarrow>
          (case adapterRead M_getNFTByIdUnique (\<lambda>s. getNFTByIdUnique ad s (send_id sendEntity)) this of
             Inl e \<Rightarrow> Inl e
           | Inr (consolidatedNFT, this1) \<Rightarrow>
               (let nft = consolidatedNFTtoInstance env consolidatedNFT
                in case sendInteraction env remark sendEntity nft of
                     Inl e \<Rightarrow> Inr (True, updateInvalidCalls env SEND remark (send_id sendEntity) e this1)
                   | Inr nft' \<Rightarrow>
                       (case (nft', consolidatedNFT) of
                          (Some n, Some c) \<Rightarrow>
                            (case adapterWrite M_updateNFTSend
                                    (\<lambda>s. updateNFTSend ad s n c (rm_block remark)) this1 of
                               (Some e, this2) \<Rightarrow>
                                 Inr (True, updateInvalidCalls env SEND remark
                                        (send_id sendEntity) e this2)
                             | (None, this2) \<Rightarrow>
                                 Inr (False, pushInteractionChange SEND (NFT_getId env n) this2))
                        | _ \<Rightarrow> Inr (False, this1)))))"

text \<open>\<open>list\<close>, lines 272-305: the last statement is \<open>return true\<close>.\<close>

definition list ::
  "Deps \<Rightarrow> 's IConsolidatorAdapter \<Rightarrow> Remark \<Rightarrow> 's Consolidator
     \<Rightarrow> string + (bool \<times> 's Consolidator)" where
  "list env ad remark this =
     (case List_fromRemark env (rm_remark remark) of
        Inl err \<Rightarrow>
          Inr (True, updateInvalidCalls env LIST remark (rm_remark remark)
                 (''['' @ OP env LIST @ ''] Dead before instantiation: '' @ err) this)
      | Inr listEntity \<Rightarrow>
          (case adapterRead M_getNFTByIdUnique (\<lambda>s. getNFTByIdUnique ad s (list_id listEntity)) this of
             Inl e \<Rightarrow> Inl e
           | Inr (consolidatedNFT, this1) \<Rightarrow>
               (let nft = consolidatedNFTtoInstance env consolidatedNFT
                in case listForSaleInteraction env remark listEntity nft of
                     Inl e \<Rightarrow> Inr (True, updateInvalidCalls env LIST remark (list_id listEntity) e this1)
                   | Inr nft' \<Rightarrow>
                       (case (nft', consolidatedNFT) of
                          (Some n, Some c) \<Rightarrow>
                            (case adapterWrite M_updateNFTList
                                    (\<lambda>s. updateNFTList ad s n c (rm_block remark)) this1 of
                               (Some e, this2) \<Rightarrow>
                                 Inr (True, updateInvalidCalls env LIST remark
                                        (list_id listEntity) e this2)
                             | (None, this2) \<Rightarrow>
                                 Inr (True, pushInteractionChange LIST (NFT_getId env n) this2))
                        | _ \<Rightarrow> Inr (True, this1)))))"

text \<open>\<open>consume\<close>, lines 313-351: the last statement is \<open>return true\<close>.\<close>

definition consume ::
  "Deps \<Rightarrow> 's IConsolidatorAdapter \<Rightarrow> Remark \<Rightarrow> 's Consolidator
     \<Rightarrow> string + (bool \<times> 's Consolidator)" where
  "consume env ad remark this =
     (case Consume_fromRemark env (rm_remark remark) of
        Inl err \<Rightarrow>
          Inr (True, updateInvalidCalls env CONSUME remark (rm_remark remark)
                 (''['' @ OP env CONSUME @ ''] Dead before instantiation: '' @ err) this)
      | Inr consumeEntity \<Rightarrow>
          (case adapterRead M_getNFTByIdUnique (\<lambda>s. getNFTByIdUnique ad s (consume_id consumeEntity)) this of
             Inl e \<Rightarrow> Inl e
           | Inr (consolidatedNFT, this1) \<Rightarrow>
               (let nft = consolidatedNFTtoInstance env consolidatedNFT
                in case consumeInteraction env remark consumeEntity nft of
                     Inl e \<Rightarrow> Inr (True, updateInvalidCalls env CONSUME remark (consume_id consumeEntity) e this1)
                   | Inr nft' \<Rightarrow>
                       (case (nft', consolidatedNFT) of
                          (Some n, Some c) \<Rightarrow>
                            (case adapterWrite M_updateNFTConsume
                                    (\<lambda>s. updateNFTConsume ad s n c (rm_block remark)) this1 of
                               (Some e, this2) \<Rightarrow>
                                 Inr (True, updateInvalidCalls env CONSUME remark
                                        (consume_id consumeEntity) e this2)
                             | (None, this2) \<Rightarrow>
                                 Inr (True, pushInteractionChange CONSUME (NFT_getId env n) this2))
                        | _ \<Rightarrow> Inr (True, this1)))))"

text \<open>\<open>buy\<close>, lines 359-388: the last statement is \<open>return true\<close>.\<close>

definition buy ::
  "Deps \<Rightarrow> 's IConsolidatorAdapter \<Rightarrow> Remark \<Rightarrow> 's Consolidator
     \<Rightarrow> string + (bool \<times> 's Consolidator)" where
  "buy env ad remark this =
     (case Buy_fromRemark env (rm_remark remark) of
        Inl err \<Rightarrow>
          Inr (True, updateInvalidCalls env BUY remark (rm_remark remark)
                 (''['' @ OP env BUY @ ''] Dead before instantiation: '' @ err) this)
      | Inr buyEntity \<Rightarrow>
          (case adapterRead M_getNFTByIdUnique (\<lambda>s. getNFTByIdUnique ad s (buy_id buyEntity)) this of
             Inl e \<Rightarrow> Inl e
           | Inr (consolidatedNFT, this1) \<Rightarrow>
               (let nft = consolidatedNFTtoInstance env consolidatedNFT
                in case buyInteraction env remark buyEntity nft (ss58Format this1) of
                     Inl e \<Rightarrow> Inr (True, updateInvalidCalls env BUY remark (buy_id buyEntity) e this1)
                   | Inr nft' \<Rightarrow>
                       (case (nft', consolidatedNFT) of
                          (Some n, Some c) \<Rightarrow>
                            (case adapterWrite M_updateNFTBuy
                                    (\<lambda>s. updateNFTBuy ad s n c (rm_block remark)) this1 of
                               (Some e, this2) \<Rightarrow>
                                 Inr (True, updateInvalidCalls env BUY remark
                                        (buy_id buyEntity) e this2)
                             | (None, this2) \<Rightarrow>
                                 Inr (True, pushInteractionChange BUY (NFT_getId env n) this2))
                        | _ \<Rightarrow> Inr (True, this1)))))"

text \<open>
  \<open>emote\<close>, lines 395-428. It reads with \<open>getNFTById\<close>, and it persists only when
  \<open>remark.block !== consolidatedNFT.updatedAtBlock\<close>; an absent \<open>updatedAtBlock\<close>
  differs from every block.
\<close>

definition emote ::
  "Deps \<Rightarrow> 's IConsolidatorAdapter \<Rightarrow> Remark \<Rightarrow> 's Consolidator
     \<Rightarrow> string + (bool \<times> 's Consolidator)" where
  "emote env ad remark this =
     (case Emote_fromRemark env (rm_remark remark) of
        Inl err \<Rightarrow>
          Inr (True, updateInvalidCalls env EMOTE remark (rm_remark remark)
                 (''['' @ OP env EMOTE @ ''] Dead before instantiation: '' @ err) this)
      | Inr emoteEntity \<Rightarrow>
          (case adapterRead M_getNFTById (\<lambda>s. getNFTById ad s (emote_id emoteEntity)) this of
             Inl e \<Rightarrow> Inl e
           | Inr (consolidatedNFT, this1) \<Rightarrow>
               (let nft = consolidatedNFTtoInstance env consolidatedNFT
                in case emoteInteraction env remark emoteEntity nft (emitEmoteChanges this1) of
                     Inl e \<Rightarrow> Inr (True, updateInvalidCalls env EMOTE remark (emote_id emoteEntity) e this1)
                   | Inr nft' \<Rightarrow>
                       (case (nft', consolidatedNFT) of
                          (Some n, Some c) \<Rightarrow>
                            if Some (rm_block remark) \<noteq> nc_updatedAtBlock c
                            then (case adapterWrite M_updateNFTEmote
                                    (\<lambda>s. updateNFTEmote ad s n c (rm_block remark)) this1 of
                               (Some e, this2) \<Rightarrow>
                                 Inr (True, updateInvalidCalls env EMOTE remark
                                        (emote_id emoteEntity) e this2)
                             | (None, this2) \<Rightarrow>
                                 Inr (False, pushInteractionChange EMOTE (NFT_getId env n) this2))
                            else Inr (False, this1)
                        | _ \<Rightarrow> Inr (False, this1)))))"

text \<open>\<open>changeIssuer\<close>, lines 437-477.\<close>

definition changeIssuer ::
  "Deps \<Rightarrow> 's IConsolidatorAdapter \<Rightarrow> Remark \<Rightarrow> 's Consolidator
     \<Rightarrow> string + (bool \<times> 's Consolidator)" where
  "changeIssuer env ad remark this =
     (case getChangeIssuerEntity env remark of
        Inl e \<Rightarrow>
          Inr (True, updateInvalidCalls env CHANGEISSUER remark (rm_remark remark) e this)
      | Inr changeIssuerEntity \<Rightarrow>
          (case adapterRead M_getCollectionById
                  (\<lambda>s. getCollectionById ad s (ci_id changeIssuerEntity)) this of
             Inl e \<Rightarrow> Inl e
           | Inr (consolidatedCollection, this1) \<Rightarrow>
               (let collection = consolidatedCollectionToInstance env consolidatedCollection
                in case changeIssuerInteraction env remark changeIssuerEntity collection of
                     Inl e \<Rightarrow>
                       Inr (True, updateInvalidCalls env CHANGEISSUER remark
                              (ci_id changeIssuerEntity) e this1)
                   | Inr collection' \<Rightarrow>
                       (case (collection', consolidatedCollection) of
                          (Some col, Some c) \<Rightarrow>
                            (case adapterWrite M_updateCollectionIssuer
                                    (\<lambda>s. updateCollectionIssuer ad s col c (rm_block remark)) this1 of
                               (Some e, this2) \<Rightarrow>
                                 Inr (True, updateInvalidCalls env CHANGEISSUER remark
                                        (ci_id changeIssuerEntity) e this2)
                             | (None, this2) \<Rightarrow>
                                 Inr (False, pushInteractionChange CHANGEISSUER (c_id col) this2))
                        | _ \<Rightarrow> Inr (False, this1)))))"

section \<open>consolidate\<close>

text \<open>
  The \<open>switch\<close> of lines 485-542: the cases are tried in the order written, with
  \<open>===\<close> on the strings; \<open>default\<close> writes one line with \<open>console.error\<close>. The boolean
  is the one the \<open>if\<close> of the case tests (none in \<open>default\<close>: \<open>False\<close>).
\<close>

definition switch_interaction ::
  "Deps \<Rightarrow> 's IConsolidatorAdapter \<Rightarrow> Remark \<Rightarrow> 's Consolidator
     \<Rightarrow> string + (bool \<times> 's Consolidator)" where
  "switch_interaction env ad remark this =
     (if rm_interaction_type remark = OP env MINT then mint env ad remark this
      else if rm_interaction_type remark = OP env MINTNFT then mintNFT env ad remark this
      else if rm_interaction_type remark = OP env SEND then send env ad remark this
      else if rm_interaction_type remark = OP env BUY then buy env ad remark this
      else if rm_interaction_type remark = OP env CONSUME then consume env ad remark this
      else if rm_interaction_type remark = OP env LIST then list env ad remark this
      else if rm_interaction_type remark = OP env EMOTE then emote env ad remark this
      else if rm_interaction_type remark = OP env CHANGEISSUER then changeIssuer env ad remark this
      else Inr (False, this\<lparr>console := console this @
                  [''Unable to process this remark - wrong type: '' @ rm_interaction_type remark]\<rparr>))"

text \<open>
  The \<open>for ... of\<close> loop of lines 482-543. After a handler returned \<open>true\<close> the body runs
  \<open>continue\<close>; after \<open>false\<close> it runs \<open>break\<close>, which leaves the \<open>switch\<close>, and the
  body ends there. A rejected handler rejects \<open>consolidate\<close>.
\<close>

fun consolidate_remarks ::
  "Deps \<Rightarrow> 's IConsolidatorAdapter \<Rightarrow> Remark list \<Rightarrow> 's Consolidator \<Rightarrow> string + 's Consolidator" where
  "consolidate_remarks env ad [] this = Inr this"
| "consolidate_remarks env ad (remark # remarks) this =
     (case switch_interaction env ad remark this of
        Inl e \<Rightarrow> Inl e
      | Inr (skip, this') \<Rightarrow>
          if skip then consolidate_remarks env ad remarks this'
          else consolidate_remarks env ad remarks this')"

text \<open>
  \<open>consolidate\<close>, lines 479-563: \<open>rmrks || []\<close>, the loop, then the result object. A bulk
  reader is called only if the adapter has it; \<open>changes\<close> is assigned only under
  \<open>emitInteractionChanges\<close>; \<open>lastBlock\<close> is never assigned.
\<close>

definition consolidate ::
  "Deps \<Rightarrow> 's IConsolidatorAdapter \<Rightarrow> Remark list option \<Rightarrow> 's Consolidator
     \<Rightarrow> string + (ConsolidatorReturnType \<times> 's Consolidator)" where
  "consolidate env ad rmrks this =
     (let remarks = (case rmrks of Some rs \<Rightarrow> rs | None \<Rightarrow> [])
      in case consolidate_remarks env ad remarks this of
           Inl e \<Rightarrow> Inl e
         | Inr this1 \<Rightarrow>
             (case (case getAllNFTs ad of
                      Some f \<Rightarrow> adapterRead M_getAllNFTs f this1
                    | None \<Rightarrow> Inr ([], this1)) of
                Inl e \<Rightarrow> Inl e
              | Inr (all_nfts, this2) \<Rightarrow>
                  (case (case getAllCollections ad of
                           Some f \<Rightarrow> adapterRead M_getAllCollections f this2
                         | None \<Rightarrow> Inr ([], this2)) of
                     Inl e \<Rightarrow> Inl e
                   | Inr (all_collections, this3) \<Rightarrow>
                       Inr (\<lparr> res_nfts = all_nfts, res_collections = all_collections,
                              res_invalid = invalidCalls this3,
                              res_changes = (if emitInteractionChanges this3
                                             then Some (interactionChanges this3) else None),
                              res_lastBlock = None \<rparr>, this3))))"

section \<open>The engine when an imported function throws\<close>

text \<open>
  \<open>Deps\<close> gives what each imported function returns. Whether a call of one of the
  functions typed total there throws instead, and with which message, is given by a second
  record: \<open>Some message\<close> where the call throws, \<open>None\<close> where it returns the value of
  \<open>Deps\<close>. The handlers are embedded once more over both records, each call at the place
  where the source has it:
  \<^item> outside \<open>try\<close> (the \<open>fromRemark\<close> parsers of lines 181, 235, 277, 318, 362 and
    399, \<open>getId\<close> at lines 191 and 195, the converters at lines 206, 248, 289, 332, 372,
    408 and 455), where a throw rejects the handler's promise;
  \<^item> inside \<open>try\<close> (\<open>Collection.fromRemark\<close> and \<open>u8aToHex\<close> in mint.ts, \<open>getId\<close>
    under \<open>emitInteractionChanges\<close>), where the \<open>catch\<close> block records an invalid call;
  \<^item> in the \<open>catch\<close> block of \<open>mintNFT\<close> (line 218), where \<open>nft.getId()\<close> is called
    again and a throw rejects the promise.
  A function is called on the same argument with the same outcome each time.
\<close>

record Throws =
  Collection_fromRemark_throws :: "string \<Rightarrow> int \<Rightarrow> string option"
  NFT_fromRemark_throws :: "string \<Rightarrow> int \<Rightarrow> string option"
  NFT_getId_throws :: "NFT \<Rightarrow> string option"
  Send_fromRemark_throws :: "string \<Rightarrow> string option"
  List_fromRemark_throws :: "string \<Rightarrow> string option"
  Consume_fromRemark_throws :: "string \<Rightarrow> string option"
  Buy_fromRemark_throws :: "string \<Rightarrow> string option"
  Emote_fromRemark_throws :: "string \<Rightarrow> string option"
  u8aToHex_throws :: "8 word list \<Rightarrow> string option"
  consolidatedCollectionToInstance_throws :: "CollectionConsolidated option \<Rightarrow> string option"
  consolidatedNFTtoInstance_throws :: "NFTConsolidated option \<Rightarrow> string option"

text \<open>A call that throws \<open>e\<close> when \<open>thrown = Some e\<close> and returns \<open>v\<close> otherwise.\<close>

definition returning :: "string option \<Rightarrow> 'a \<Rightarrow> string + 'a" where
  "returning thrown v = (case thrown of Some e \<Rightarrow> Inl e | None \<Rightarrow> Inr v)"

text \<open>mint.ts lines 7-15, with \<open>C100.fromRemark\<close> of line 8 throwing or returning.\<close>

definition getCollectionFromRemark_raising :: "Throws \<Rightarrow> Deps \<Rightarrow> Remark \<Rightarrow> string + Collection" where
  "getCollectionFromRemark_raising thr env remark =
     (case returning (Collection_fromRemark_throws thr (rm_remark remark) (rm_block remark))
             (Collection_fromRemark env (rm_remark remark) (rm_block remark)) of
        Inl e \<Rightarrow> Inl e
      | Inr (Inl collection) \<Rightarrow>
          Inl (''['' @ OP env MINT @ ''] Dead before instantiation: '' @ collection)
      | Inr (Inr collection) \<Rightarrow> Inr collection)"

text \<open>
  mint.ts lines 17-30, with \<open>u8aToHex(pubkey)\<close> of line 19 throwing or returning; lines 22
  and 27 call it on the same \<open>pubkey\<close>.
\<close>

definition validateMintIds_raising :: "Throws \<Rightarrow> Deps \<Rightarrow> Collection \<Rightarrow> Remark \<Rightarrow> string + unit" where
  "validateMintIds_raising thr env collection remark =
     (case decodeAddress env (rm_caller remark) of
        Inl e \<Rightarrow> Inl e
      | Inr pubkey \<Rightarrow>
          (case returning (u8aToHex_throws thr pubkey) (u8aToHex env pubkey) of
             Inl e \<Rightarrow> Inl e
           | Inr pubkeyString \<Rightarrow>
               (let pubkeyStart = substr pubkeyString 2 8;
                    pubkeyEnd = substring pubkeyString (int (length pubkeyString) - 8)
                in case Collection_generateId env pubkeyString (c_symbol collection) of
                     Inl e \<Rightarrow> Inl e
                   | Inr gid \<Rightarrow>
                       (let idStart = substr gid 0 8;
                            idEnd = substring gid (int (length pubkeyString) - 8)
                        in if idStart = pubkeyStart \<and> idEnd = pubkeyEnd
                           then Inl (''Caller's pubkey '' @ pubkeyString @ '' ('' @ gid
                                     @ '') does not match generated ID'')
                           else Inr ()))))"

text \<open>\<open>mint\<close>, lines 134-171: both calls into mint.ts stand inside \<open>try\<close>.\<close>

definition mint_raising ::
  "Throws \<Rightarrow> Deps \<Rightarrow> 's IConsolidatorAdapter \<Rightarrow> Remark \<Rightarrow> 's Consolidator
     \<Rightarrow> string + (bool \<times> 's Consolidator)" where
  "mint_raising thr env ad remark this =
     (case getCollectionFromRemark_raising thr env remark of
        Inl e \<Rightarrow> Inr (True, updateInvalidCalls env MINT remark (rm_remark remark) e this)
      | Inr collection \<Rightarrow>
          (case adapterRead M_getCollectionById
                  (\<lambda>s. getCollectionById ad s (c_id collection)) this of
             Inl e \<Rightarrow> Inl e
           | Inr (existingCollection, this1) \<Rightarrow>
               (case existingCollection of
                  Some _ \<Rightarrow>
                    Inr (True, updateInvalidCalls env MINT remark (c_id collection)
                           (''['' @ OP env MINT @ ''] Attempt to mint already existing collection'')
                           this1)
                | None \<Rightarrow>
                    (case validateMintIds_raising thr env collection remark of
                       Inl e \<Rightarrow>
                         Inr (True, updateInvalidCalls env MINT remark (c_id collection) e this1)
                     | Inr _ \<Rightarrow>
                         (case adapterWrite M_updateCollectionMint
                                 (\<lambda>s. updateCollectionMint ad s collection) this1 of
                            (Some e, this2) \<Rightarrow>
                              Inr (True, updateInvalidCalls env MINT remark (c_id collection) e this2)
                          | (None, this2) \<Rightarrow>
                              Inr (False, pushInteractionChange MINT (c_id collection)
                                     (this2\<lparr>collections := collections this2 @ [collection]\<rparr>)))))))"

text \<open>
  \<open>mintNFT\<close>, lines 177-223. \<open>NFT.fromRemark\<close> (line 181), \<open>nft.getId()\<close> (lines 191
  and 195) and the converter (line 206) stand outside \<open>try\<close>. In the \<open>try\<close> block
  \<open>nft.getId()\<close> is called under \<open>emitInteractionChanges\<close> (line 215); the \<open>catch\<close>
  block calls it again (line 218), so a throw of \<open>getId\<close> on the validated item rejects
  the promise from either place.
\<close>

definition mintNFT_raising ::
  "Throws \<Rightarrow> Deps \<Rightarrow> 's IConsolidatorAdapter \<Rightarrow> Remark \<Rightarrow> 's Consolidator
     \<Rightarrow> string + (bool \<times> 's Consolidator)" where
  "mintNFT_raising thr env ad remark this =
     (case returning (NFT_fromRemark_throws thr (rm_remark remark) (rm_block remark))
             (NFT_fromRemark env (rm_remark remark) (rm_block remark)) of
        Inl e \<Rightarrow> Inl e
      | Inr (Inl err) \<Rightarrow>
          Inr (True, updateInvalidCalls env MINTNFT remark (rm_remark remark)
                 (''['' @ OP env MINTNFT @ ''] Dead before instantiation: '' @ err) this)
      | Inr (Inr nft) \<Rightarrow>
          (case returning (NFT_getId_throws thr nft) (NFT_getId env nft) of
             Inl e \<Rightarrow> Inl e
           | Inr nft_id \<Rightarrow>
               (case adapterRead M_getNFTByIdUnique (\<lambda>s. getNFTByIdUnique ad s nft_id) this of
                  Inl e \<Rightarrow> Inl e
                | Inr (exists, this1) \<Rightarrow>
                    (case exists of
                       Some _ \<Rightarrow>
                         Inr (True, updateInvalidCalls env MINTNFT remark nft_id
                                (''['' @ OP env MINTNFT @ ''] Attempt to mint already existing NFT'')
                                this1)
                     | None \<Rightarrow>
                         (case adapterRead M_getCollectionById
                                 (\<lambda>s. getCollectionById ad s (n_collection nft)) this1 of
                            Inl e \<Rightarrow> Inl e
                          | Inr (nftParentCollection, this2) \<Rightarrow>
                              (case (case nftParentCollection of
                                       Some c \<Rightarrow>
                                         returning (consolidatedCollectionToInstance_throws thr (Some c))
                                           (consolidatedCollectionToInstance env (Some c))
                                     | None \<Rightarrow> Inr None) of
                                 Inl e \<Rightarrow> Inl e
                               | Inr collection \<Rightarrow>
                                   (case validateMintNFT env remark nft collection of
                                      Inl e \<Rightarrow>
                                        Inr (True, updateInvalidCalls env MINTNFT remark nft_id e this2)
                                    | Inr nft' \<Rightarrow>
                                        (case adapterWrite M_updateNFTMint
                                                (\<lambda>s. updateNFTMint ad s nft' (rm_block remark)) this2 of
                                           (Some e, this3) \<Rightarrow>
                                             (case returning (NFT_getId_throws thr nft')
                                                     (NFT_getId env nft') of
                                                Inl e' \<Rightarrow> Inl e'
                                              | Inr i \<Rightarrow>
                                                  Inr (True, updateInvalidCalls env MINTNFT remark
                                                         i e this3))
                                         | (None, this3) \<Rightarrow>
                                             if emitInteractionChanges this3
                                             then (case returning (NFT_getId_throws thr nft')
                                                          (NFT_getId env nft') of
                                                     Inl e \<Rightarrow> Inl e
                                                   | Inr i \<Rightarrow>
                                                       Inr (False, this3\<lparr>nfts := nfts this3 @ [nft'],
                                                              interactionChanges :=
                                                                interactionChanges this3
                                                                  @ [(MINTNFT, i)]\<rparr>))
                                             else Inr (False, this3\<lparr>nfts := nfts this3 @ [nft']\<rparr>)))))))))"

text \<open>
  \<open>send\<close>, lines 230-264: the parser (line 235) and the converter (line 248) stand
  outside \<open>try\<close>; \<open>nft.getId()\<close> is called inside it, under \<open>emitInteractionChanges\<close>
  and after the adapter's write (line 255), where a throw is caught and recorded.
\<close>

definition send_raising ::
  "Throws \<Rightarrow> Deps \<Rightarrow> 's IConsolidatorAdapter \<Rightarrow> Remark \<Rightarrow> 's Consolidator
     \<Rightarrow> string + (bool \<times> 's Consolidator)" where
  "send_raising thr env ad remark this =
     (case returning (Send_fromRemark_throws thr (rm_remark remark))
             (Send_fromRemark env (rm_remark remark)) of
        Inl e \<Rightarrow> Inl e
      | Inr (Inl err) \<Rightarrow>
          Inr (True, updateInvalidCalls env SEND remark (rm_remark remark)
                 (''['' @ OP env SEND @ ''] Dead before instantiation: '' @ err) this)
      | Inr (Inr sendEntity) \<Rightarrow>
          (case adapterRead M_getNFTByIdUnique (\<lambda>s. getNFTByIdUnique ad s (send_id sendEntity)) this of
             Inl e \<Rightarrow> Inl e
           | Inr (consolidatedNFT, this1) \<Rightarrow>
               (case returning (consolidatedNFTtoInstance_throws thr consolidatedNFT)
                       (consolidatedNFTtoInstance env consolidatedNFT) of
                  Inl e \<Rightarrow> Inl e
                | Inr nft \<Rightarrow>
                    (case sendInteraction env remark sendEntity nft of
                       Inl e \<Rightarrow>
                         Inr (True, updateInvalidCalls env SEND remark (send_id sendEntity) e this1)
                     | Inr nft' \<Rightarrow>
                         (case (nft', consolidatedNFT) of
                            (Some n, Some c) \<Rightarrow>
                              (case adapterWrite M_updateNFTSend
                                      (\<lambda>s. updateNFTSend ad s n c (rm_block remark)) this1 of
                                 (Some e, this2) \<Rightarrow>
                                   Inr (True, updateInvalidCalls env SEND remark
                                          (send_id sendEntity) e this2)
                               | (None, this2) \<Rightarrow>
                                   if emitInteractionChanges this2
                                   then (case returning (NFT_getId_throws thr n) (NFT_getId env n) of
                                           Inl e \<Rightarrow>
                                             Inr (True, updateInvalidCalls env SEND remark
                                                    (send_id sendEntity) e this2)
                                         | Inr i \<Rightarrow>
                                             Inr (False, this2\<lparr>interactionChanges :=
                                                    interactionChanges this2 @ [(SEND, i)]\<rparr>))
                                   else Inr (False, this2))
                          | _ \<Rightarrow> Inr (False, this1))))))"

text \<open>\<open>list\<close>, lines 272-305, as \<open>send\<close>.\<close>

definition list_raising ::
  "Throws \<Rightarrow> Deps \<Rightarrow> 's IConsolidatorAdapter \<Rightarrow> Remark \<Rightarrow> 's Consolidator
     \<Rightarrow> string + (bool \<times> 's Consolidator)" where
  "list_raising thr env ad remark this =
     (case returning (List_fromRemark_throws thr (rm_remark remark))
             (List_fromRemark env (rm_remark remark)) of
        Inl e \<Rightarrow> Inl e
      | Inr (Inl err) \<Rightarrow>
          Inr (True, updateInvalidCalls env LIST remark (rm_remark remark)
                 (''['' @ OP env LIST @ ''] Dead before instantiation: '' @ err) this)
      | Inr (Inr listEntity) \<Rightarrow>
          (case adapterRead M_getNFTByIdUnique (\<lambda>s. getNFTByIdUnique ad s (list_id listEntity)) this of
             Inl e \<Rightarrow> Inl e
           | Inr (consolidatedNFT, this1) \<Rightarrow>
               (case returning (consolidatedNFTtoInstance_throws thr consolidatedNFT)
                       (consolidatedNFTtoInstance env consolidatedNFT) of
                  Inl e \<Rightarrow> Inl e
                | Inr nft \<Rightarrow>
                    (case listForSaleInteraction env remark listEntity nft of
                       Inl e \<Rightarrow>
                         Inr (True, updateInvalidCalls env LIST remark (list_id listEntity) e this1)
                     | Inr nft' \<Rightarrow>
                         (case (nft', consolidatedNFT) of
                            (Some n, Some c) \<Rightarrow>
                              (case adapterWrite M_updateNFTList
                                      (\<lambda>s. updateNFTList ad s n c (rm_block remark)) this1 of
                                 (Some e, this2) \<Rightarrow>
                                   Inr (True, updateInvalidCalls env LIST remark
                                          (list_id listEntity) e this2)
                               | (None, this2) \<Rightarrow>
                                   if emitInteractionChanges this2
                                   then (case returning (NFT_getId_throws thr n) (NFT_getId env n) of
                                           Inl e \<Rightarrow>
                                             Inr (True, updateInvalidCalls env LIST remark
                                                    (list_id listEntity) e this2)
                                         | Inr i \<Rightarrow>
                                             Inr (True, this2\<lparr>interactionChanges :=
                                                    interactionChanges this2 @ [(LIST, i)]\<rparr>))
                                   else Inr (True, this2))
                          | _ \<Rightarrow> Inr (True, this1))))))"

text \<open>\<open>consume\<close>, lines 313-351, as \<open>send\<close>.\<close>

definition consume_raising ::
  "Throws \<Rightarrow> Deps \<Rightarrow> 's IConsolidatorAdapter \<Rightarrow> Remark \<Rightarrow> 's Consolidator
     \<Rightarrow> string + (bool \<times> 's Consolidator)" where
  "consume_raising thr env ad remark this =
     (case returning (Consume_fromRemark_throws thr (rm_remark remark))
             (Consume_fromRemark env (rm_remark remark)) of
        Inl e \<Rightarrow> Inl e
      | Inr (Inl err) \<Rightarrow>
          Inr (True, updateInvalidCalls env CONSUME remark (rm_remark remark)
                 (''['' @ OP env CONSUME @ ''] Dead before instantiation: '' @ err) this)
      | Inr (Inr consumeEntity) \<Rightarrow>
          (case adapterRead M_getNFTByIdUnique (\<lambda>s. getNFTByIdUnique ad s (consume_id consumeEntity)) this of
             Inl e \<Rightarrow> Inl e
           | Inr (consolidatedNFT, this1) \<Rightarrow>
               (case returning (consolidatedNFTtoInstance_throws thr consolidatedNFT)
                       (consolidatedNFTtoInstance env consolidatedNFT) of
                  Inl e \<Rightarrow> Inl e
                | Inr nft \<Rightarrow>
                    (case consumeInteraction env remark consumeEntity nft of
                       Inl e \<Rightarrow>
                         Inr (True, updateInvalidCalls env CONSUME remark (consume_id consumeEntity) e this1)
                     | Inr nft' \<Rightarrow>
                         (case (nft', consolidatedNFT) of
                            (Some n, Some c) \<Rightarrow>
                              (case adapterWrite M_updateNFTConsume
                                      (\<lambda>s. updateNFTConsume ad s n c (rm_block remark)) this1 of
                                 (Some e, this2) \<Rightarrow>
                                   Inr (True, updateInvalidCalls env CONSUME remark
                                          (consume_id consumeEntity) e this2)
                               | (None, this2) \<Rightarrow>
                                   if emitInteractionChanges this2
                                   then (case returning (NFT_getId_throws thr n) (NFT_getId env n) of
                                           Inl e \<Rightarrow>
                                             Inr (True, updateInvalidCalls env CONSUME remark
                                                    (consume_id consumeEntity) e this2)
                                         | Inr i \<Rightarrow>
                                             Inr (True, this2\<lparr>interactionChanges :=
                                                    interactionChanges this2 @ [(CONSUME, i)]\<rparr>))
                                   else Inr (True, this2))
                          | _ \<Rightarrow> Inr (True, this1))))))"

text \<open>\<open>buy\<close>, lines 359-388, as \<open>send\<close>.\<close>

definition buy_raising ::
  "Throws \<Rightarrow> Deps \<Rightarrow> 's IConsolidatorAdapter \<Rightarrow> Remark \<Rightarrow> 's Consolidator
     \<Rightarrow> string + (bool \<times> 's Consolidator)" where
  "buy_raising thr env ad remark this =
     (case returning (Buy_fromRemark_throws thr (rm_remark remark))
             (Buy_fromRemark env (rm_remark remark)) of
        Inl e \<Rightarrow> Inl e
      | Inr (Inl err) \<Rightarrow>
          Inr (True, updateInvalidCalls env BUY remark (rm_remark remark)
                 (''['' @ OP env BUY @ ''] Dead before instantiation: '' @ err) this)
      | Inr (Inr buyEntity) \<Rightarrow>
          (case adapterRead M_getNFTByIdUnique (\<lambda>s. getNFTByIdUnique ad s (buy_id buyEntity)) this of
             Inl e \<Rightarrow> Inl e
           | Inr (consolidatedNFT, this1) \<Rightarrow>
               (case returning (consolidatedNFTtoInstance_throws thr consolidatedNFT)
                       (consolidatedNFTtoInstance env consolidatedNFT) of
                  Inl e \<Rightarrow> Inl e
                | Inr nft \<Rightarrow>
                    (case buyInteraction env remark buyEntity nft (ss58Format this1) of
                       Inl e \<Rightarrow>
                         Inr (True, updateInvalidCalls env BUY remark (buy_id buyEntity) e this1)
                     | Inr nft' \<Rightarrow>
                         (case (nft', consolidatedNFT) of
                            (Some n, Some c) \<Rightarrow>
                              (case adapterWrite M_updateNFTBuy
                                      (\<lambda>s. updateNFTBuy ad s n c (rm_block remark)) this1 of
                                 (Some e, this2) \<Rightarrow>
                                   Inr (True, updateInvalidCalls env BUY remark
                                          (buy_id buyEntity) e this2)
                               | (None, this2) \<Rightarrow>
                                   if emitInteractionChanges this2
                                   then (case returning (NFT_getId_throws thr n) (NFT_getId env n) of
                                           Inl e \<Rightarrow>
                                             Inr (True, updateInvalidCalls env BUY remark
                                                    (buy_id buyEntity) e this2)
                                         | Inr i \<Rightarrow>
                                             Inr (True, this2\<lparr>interactionChanges :=
                                                    interactionChanges this2 @ [(BUY, i)]\<rparr>))
                                   else Inr (True, this2))
                          | _ \<Rightarrow> Inr (True, this1))))))"

text \<open>\<open>emote\<close>, lines 395-428, as \<open>send\<close>, with the block test of line 415.\<close>

definition emote_raising ::
  "Throws \<Rightarrow> Deps \<Rightarrow> 's IConsolidatorAdapter \<Rightarrow> Remark \<Rightarrow> 's Consolidator
     \<Rightarrow> string + (bool \<times> 's Consolidator)" where
  "emote_raising thr env ad remark this =
     (case returning (Emote_fromRemark_throws thr (rm_remark remark))
             (Emote_fromRemark env (rm_remark remark)) of
        Inl e \<Rightarrow> Inl e
      | Inr (Inl err) \<Rightarrow>
          Inr (True, updateInvalidCalls env EMOTE remark (rm_remark remark)
                 (''['' @ OP env EMOTE @ ''] Dead before instantiation: '' @ err) this)
      | Inr (Inr emoteEntity) \<Rightarrow>
          (case adapterRead M_getNFTById (\<lambda>s. getNFTById ad s (emote_id emoteEntity)) this of
             Inl e \<Rightarrow> Inl e
           | Inr (consolidatedNFT, this1) \<Rightarrow>
               (case returning (consolidatedNFTtoInstance_throws thr consolidatedNFT)
                       (consolidatedNFTtoInstance env consolidatedNFT) of
                  Inl e \<Rightarrow> Inl e
                | Inr nft \<Rightarrow>
                    (case emoteInteraction env remark emoteEntity nft (emitEmoteChanges this1) of
                       Inl e \<Rightarrow>
                         Inr (True, updateInvalidCalls env EMOTE remark (emote_id emoteEntity) e this1)
                     | Inr nft' \<Rightarrow>
                         (case (nft', consolidatedNFT) of
                            (Some n, Some c) \<Rightarrow>
                              if Some (rm_block remark) \<noteq> nc_updatedAtBlock c
                              then (case adapterWrite M_updateNFTEmote
                                      (\<lambda>s. updateNFTEmote ad s n c (rm_block remark)) this1 of
                                 (Some e, this2) \<Rightarrow>
                                   Inr (True, updateInvalidCalls env EMOTE remark
                                          (emote_id emoteEntity) e this2)
                               | (None, this2) \<Rightarrow>
                                   if emitInteractionChanges this2
                                   then (case returning (NFT_getId_throws thr n) (NFT_getId env n) of
                                           Inl e \<Rightarrow>
                                             Inr (True, updateInvalidCalls env EMOTE remark
                                                    (emote_id emoteEntity) e this2)
                                         | Inr i \<Rightarrow>
                                             Inr (False, this2\<lparr>interactionChanges :=
                                                    interactionChanges this2 @ [(EMOTE, i)]\<rparr>))
                                   else Inr (False, this2))
                              else Inr (False, this1)
                          | _ \<Rightarrow> Inr (False, this1))))))"

text \<open>
  \<open>changeIssuer\<close>, lines 437-477: the parser stands inside \<open>try\<close>, the converter
  (line 455) outside; the change entry takes \<open>collection.id\<close>, a field.
\<close>

definition changeIssuer_raising ::
  "Throws \<Rightarrow> Deps \<Rightarrow> 's IConsolidatorAdapter \<Rightarrow> Remark \<Rightarrow> 's Consolidator
     \<Rightarrow> string + (bool \<times> 's Consolidator)" where
  "changeIssuer_raising thr env ad remark this =
     (case getChangeIssuerEntity env remark of
        Inl e \<Rightarrow>
          Inr (True, updateInvalidCalls env CHANGEISSUER remark (rm_remark remark) e this)
      | Inr changeIssuerEntity \<Rightarrow>
          (case adapterRead M_getCollectionById
                  (\<lambda>s. getCollectionById ad s (ci_id changeIssuerEntity)) this of
             Inl e \<Rightarrow> Inl e
           | Inr (consolidatedCollection, this1) \<Rightarrow>
               (case returning (consolidatedCollectionToInstance_throws thr consolidatedCollection)
                       (consolidatedCollectionToInstance env consolidatedCollection) of
                  Inl e \<Rightarrow> Inl e
                | Inr collection \<Rightarrow>
                    (case changeIssuerInteraction env remark changeIssuerEntity collection of
                       Inl e \<Rightarrow>
                         Inr (True, updateInvalidCalls env CHANGEISSUER remark
                                (ci_id changeIssuerEntity) e this1)
                     | Inr collection' \<Rightarrow>
                         (case (collection', consolidatedCollection) of
                            (Some col, Some c) \<Rightarrow>
                              (case adapterWrite M_updateCollectionIssuer
                                      (\<lambda>s. updateCollectionIssuer ad s col c (rm_block remark))
                                      this1 of
                                 (Some e, this2) \<Rightarrow>
                                   Inr (True, updateInvalidCalls env CHANGEISSUER remark
                                          (ci_id changeIssuerEntity) e this2)
                               | (None, this2) \<Rightarrow>
                                   Inr (False, pushInteractionChange CHANGEISSUER (c_id col) this2))
                          | _ \<Rightarrow> Inr (False, this1))))))"

text \<open>The \<open>switch\<close>, the loop and \<open>consolidate\<close> (lines 479-563) over these handlers.\<close>

definition switch_raising ::
  "Throws \<Rightarrow> Deps \<Rightarrow> 's IConsolidatorAdapter \<Rightarrow> Remark \<Rightarrow> 's Consolidator
     \<Rightarrow> string + (bool \<times> 's Consolidator)" where
  "switch_raising thr env ad remark this =
     (if rm_interaction_type remark = OP env MINT then mint_raising thr env ad remark this
      else if rm_interaction_type remark = OP env MINTNFT then mintNFT_raising thr env ad remark this
      else if rm_interaction_type remark = OP env SEND then send_raising thr env ad remark this
      else if rm_interaction_type remark = OP env BUY then buy_raising thr env ad remark this
      else if rm_interaction_type remark = OP env CONSUME then consume_raising thr env ad remark this
      else if rm_interaction_type remark = OP env LIST then list_raising thr env ad remark this
      else if rm_interaction_type remark = OP env EMOTE then emote_raising thr env ad remark this
      else if rm_interaction_type remark = OP env CHANGEISSUER
        then changeIssuer_raising thr env ad remark this
      else Inr (False, this\<lparr>console := console this @
                  [''Unable to process this remark - wrong type: '' @ rm_interaction_type remark]\<rparr>))"

fun consolidate_remarks_raising ::
  "Throws \<Rightarrow> Deps \<Rightarrow> 's IConsolidatorAdapter \<Rightarrow> Remark list \<Rightarrow> 's Consolidator
     \<Rightarrow> string + 's Consolidator" where
  "consolidate_remarks_raising thr env ad [] this = Inr this"
| "consolidate_remarks_raising thr env ad (remark # remarks) this =
     (case switch_raising thr env ad remark this of
        Inl e \<Rightarrow> Inl e
      | Inr (skip, this') \<Rightarrow>
          if skip then consolidate_remarks_raising thr env ad remarks this'
          else consolidate_remarks_raising thr env ad remarks this')"

definition consolidate_raising ::
  "Throws \<Rightarrow> Deps \<Rightarrow> 's IConsolidatorAdapter \<Rightarrow> Remark list option \<Rightarrow> 's Consolidator
     \<Rightarrow> string + (ConsolidatorReturnType \<times> 's Consolidator)" where
  "consolidate_raising thr env ad rmrks this =
     (let remarks = (case rmrks of Some rs \<Rightarrow> rs | None \<Rightarrow> [])
      in case consolidate_remarks_raising thr env ad remarks this of
           Inl e \<Rightarrow> Inl e
         | Inr this1 \<Rightarrow>
             (case (case getAllNFTs ad of
                      Some f \<Rightarrow> adapterRead M_getAllNFTs f this1
                    | None \<Rightarrow> Inr ([], this1)) of
                Inl e \<Rightarrow> Inl e
              | Inr (all_nfts, this2) \<Rightarrow>
                  (case (case getAllCollections ad of
                           Some f \<Rightarrow> adapterRead M_getAllCollections f this2
                         | None \<Rightarrow> Inr ([], this2)) of
                     Inl e \<Rightarrow> Inl e
                   | Inr (all_collections, this3) \<Rightarrow>
                       Inr (\<lparr> res_nfts = all_nfts, res_collections = all_collections,
                              res_invalid = invalidCalls this3,
                              res_changes = (if emitInteractionChanges this3
                                             then Some (interactionChanges this3) else None),
                              res_lastBlock = None \<rparr>, this3))))"

section \<open>The in-memory adapter\<close>

text \<open>
  Modelled from the spec: \<^verbatim>\<open>./adapters/in-memory-adapter\<close> is not under src/. Section 2
  of the specification describes the default adapter as an in-process map-backed store, and
  section 4.10 gives its contract: lookups by id, one apply method per transition, each
  taking the new entity, the previous consolidated snapshot and the block, and the two bulk
  readers. The store keeps one map per entity kind, from id to consolidated entity, in
  insertion order; a transition of an existing entity replaces the entry under the id of
  the previous snapshot and stamps it with the block.
\<close>

record InMemoryStore =
  im_nfts :: "(string \<times> NFTConsolidated) list"
  im_collections :: "(string \<times> CollectionConsolidated) list"

definition InMemoryAdapter_new :: InMemoryStore where
  "InMemoryAdapter_new = \<lparr> im_nfts = [], im_collections = [] \<rparr>"

definition collection_consolidated :: "Collection \<Rightarrow> int option \<Rightarrow> CollectionConsolidated" where
  "collection_consolidated c updated =
     \<lparr> cc_block = c_block c, cc_name = c_name c, cc_max = c_max c, cc_issuer = c_issuer c,
       cc_symbol = c_symbol c, cc_id = c_id c, cc_metadata = c_metadata c,
       cc_changes = c_changes c, cc_loadedMetadata = None, cc_updatedAtBlock = updated \<rparr>"

definition nft_consolidated :: "Deps \<Rightarrow> NFT \<Rightarrow> int \<Rightarrow> NFTConsolidated" where
  "nft_consolidated env n updated =
     \<lparr> nc_id = NFT_getId env n, nc_block = n_block n, nc_collection = n_collection n,
       nc_name = n_name n, nc_instance = n_instance n, nc_transferable = n_transferable n,
       nc_sn = n_sn n, nc_metadata = n_metadata n, nc_data = n_data n,
       nc_forsale = n_forsale n, nc_reactions = n_reactions n, nc_changes = n_changes n,
       nc_owner = n_owner n, nc_loadedMetadata = None, nc_burned = n_burned n,
       nc_updatedAtBlock = Some updated \<rparr>"

definition im_apply_nft ::
  "Deps \<Rightarrow> InMemoryStore \<Rightarrow> NFT \<Rightarrow> NFTConsolidated \<Rightarrow> int \<Rightarrow> string + InMemoryStore" where
  "im_apply_nft env s n previous block =
     Inr (s\<lparr>im_nfts := AList.update (nc_id previous)
            ((nft_consolidated env n block)
               \<lparr>nc_id := nc_id previous, nc_loadedMetadata := nc_loadedMetadata previous\<rparr>)
            (im_nfts s)\<rparr>)"

definition im_apply_collection ::
  "InMemoryStore \<Rightarrow> Collection \<Rightarrow> CollectionConsolidated \<Rightarrow> int \<Rightarrow> string + InMemoryStore" where
  "im_apply_collection s c previous block =
     Inr (s\<lparr>im_collections := AList.update (cc_id previous)
            ((collection_consolidated c (Some block))
               \<lparr>cc_id := cc_id previous, cc_loadedMetadata := cc_loadedMetadata previous\<rparr>)
            (im_collections s)\<rparr>)"

definition InMemoryAdapter :: "Deps \<Rightarrow> InMemoryStore IConsolidatorAdapter" where
  "InMemoryAdapter env =
     \<lparr> getCollectionById = (\<lambda>s i. Inr (map_of (im_collections s) i)),
       getNFTById = (\<lambda>s i. Inr (map_of (im_nfts s) i)),
       getNFTByIdUnique = (\<lambda>s i. Inr (map_of (im_nfts s) i)),
       updateCollectionMint = (\<lambda>s c.
         Inr (s\<lparr>im_collections :=
                  AList.update (c_id c) (collection_consolidated c None) (im_collections s)\<rparr>)),
       updateNFTMint = (\<lambda>s n block.
         Inr (s\<lparr>im_nfts :=
                  AList.update (NFT_getId env n) (nft_consolidated env n block) (im_nfts s)\<rparr>)),
       updateNFTSend = im_apply_nft env,
       updateNFTList = im_apply_nft env,
       updateNFTConsume = im_apply_nft env,
       updateNFTBuy = im_apply_nft env,
       updateNFTEmote = im_apply_nft env,
       updateCollectionIssuer = im_apply_collection,
       getAllNFTs = Some (\<lambda>s. Inr (map snd (im_nfts s))),
       getAllCollections = Some (\<lambda>s. Inr (map snd (im_collections s))) \<rparr>"

text \<open>An adapter without the optional bulk readers (a write-only adapter).\<close>

definition WriteOnlyAdapter :: "Deps \<Rightarrow> InMemoryStore IConsolidatorAdapter" where
  "WriteOnlyAdapter env = (InMemoryAdapter env)\<lparr>getAllNFTs := None, getAllCollections := None\<rparr>"

section \<open>A sample environment\<close>

text \<open>
  Concrete parsers, validation rules and an address codec, on which the theorems below are
  exercised. A sample remark is its RMRK 1.0.0 prefix followed by one word: the symbol of
  the collection, the instance name of the item, or the id of the target. The validation
  rules follow sections 4.3 to 4.9 of the specification. The codec knows one address, with
  its 32-byte public key; \<open>sample_u8aToHex\<close> writes bytes as \<open>0x\<close> and two lower-case
  hexadecimal digits each. \<open>sample_generateId\<close> embeds the first ten and the last eight
  digits of the key in the id, before the symbol.
\<close>

fun strip_prefix :: "string \<Rightarrow> string \<Rightarrow> string option" where
  "strip_prefix [] s = Some s"
| "strip_prefix (p # ps) [] = None"
| "strip_prefix (p # ps) (c # cs) = (if p = c then strip_prefix ps cs else None)"

definition payload :: "string \<Rightarrow> string \<Rightarrow> string option" where
  "payload pre s =
     (case strip_prefix pre s of
        None \<Rightarrow> None
      | Some w \<Rightarrow> if w = [] then None else Some w)"

definition sample_OP :: "OP_TYPES \<Rightarrow> string" where
  "sample_OP op =
     (case op of BUY \<Rightarrow> ''BUY'' | LIST \<Rightarrow> ''LIST'' | MINT \<Rightarrow> ''MINT'' | MINTNFT \<Rightarrow> ''MINTNFT''
      | SEND \<Rightarrow> ''SEND'' | EMOTE \<Rightarrow> ''EMOTE'' | CHANGEISSUER \<Rightarrow> ''CHANGEISSUER''
      | CONSUME \<Rightarrow> ''CONSUME'')"

definition alice :: string where
  "alice = ''5GrwvaEF5zXb26Fz9rcQpDWS57CtERHpNehXCPcNoHGKutQY''"

definition bob :: string where
  "bob = ''5FHneW46xGXgs5mUiveU4sbTyGBzmstUspZC92UhjJM694ty''"

definition alice_pubkey :: "8 word list" where
  "alice_pubkey =
     [0xD4, 0x35, 0x93, 0xC7, 0x15, 0xFD, 0xD3, 0x1C, 0x61, 0x14, 0x1A, 0xBD, 0x04,
      0xA9, 0x9F, 0xD6, 0x82, 0x2C, 0x85, 0x58, 0x85, 0x4C, 0xCD, 0xE3, 0x9A, 0x56,
      0x84, 0xE7, 0xA5, 0x6D, 0xA2, 0x7D]"

definition hex_digit :: "nat \<Rightarrow> char" where
  "hex_digit d = ''0123456789abcdef'' ! (d mod 16)"

definition sample_u8aToHex :: "8 word list \<Rightarrow> string" where
  "sample_u8aToHex bs =
     ''0x'' @ concat (map (\<lambda>b. [hex_digit (unat b div 16), hex_digit (unat b mod 16)]) bs)"

definition sample_decodeAddress :: "string \<Rightarrow> string + 8 word list" where
  "sample_decodeAddress a =
     (if a = alice then Inr alice_pubkey else Inl (''Decoding '' @ a @ '': Invalid address''))"

definition sample_generateId :: "string \<Rightarrow> string \<Rightarrow> string + string" where
  "sample_generateId pubkey symbol =
     (if take 2 pubkey \<noteq> ''0x''
      then Inl ''This is not a valid pubkey, it does not start with 0x''
      else Inr (substr pubkey 2 10 @ substring pubkey (int (length pubkey) - 8)
                @ ''-'' @ symbol))"

definition sample_Collection_fromRemark :: "string \<Rightarrow> int \<Rightarrow> string + Collection" where
  "sample_Collection_fromRemark r block =
     (case payload ''RMRK::MINT::1.0.0::'' r of
        None \<Rightarrow> Inl ''invalid remark''
      | Some symbol \<Rightarrow>
          Inr \<lparr> c_block = block, c_name = symbol, c_max = 0, c_issuer = alice,
                c_symbol = symbol, c_id = ''d43593c715a56da27d-'' @ symbol,
                c_metadata = ''ipfs://ipfs/collection'', c_changes = [] \<rparr>)"

definition sample_NFT_fromRemark :: "string \<Rightarrow> int \<Rightarrow> string + NFT" where
  "sample_NFT_fromRemark r block =
     (case payload ''RMRK::MINTNFT::1.0.0::'' r of
        None \<Rightarrow> Inl ''invalid remark''
      | Some inst \<Rightarrow>
          Inr \<lparr> n_block = block, n_collection = ''d43593c715a56da27d-ALPHA'', n_name = inst,
                n_instance = inst, n_transferable = 1, n_sn = ''0000000000000001'',
                n_metadata = None, n_data = None, n_forsale = 0, n_reactions = [],
                n_changes = [], n_owner = [], n_burned = [], n_updatedAtBlock = None \<rparr>)"

definition sample_getId :: "NFT \<Rightarrow> string" where
  "sample_getId n = n_collection n @ ''-'' @ n_instance n @ ''-'' @ n_sn n"

definition sample_Send_fromRemark :: "string \<Rightarrow> string + Send" where
  "sample_Send_fromRemark r =
     (case payload ''RMRK::SEND::1.0.0::'' r of
        None \<Rightarrow> Inl ''invalid remark''
      | Some i \<Rightarrow> Inr \<lparr> send_id = i, send_recipient = bob \<rparr>)"

definition sample_List_fromRemark :: "string \<Rightarrow> string + List" where
  "sample_List_fromRemark r =
     (case payload ''RMRK::LIST::1.0.0::'' r of
        None \<Rightarrow> Inl ''invalid remark''
      | Some i \<Rightarrow> Inr \<lparr> list_id = i, list_price = 100 \<rparr>)"

definition sample_Consume_fromRemark :: "string \<Rightarrow> string + Consume" where
  "sample_Consume_fromRemark r =
     (case payload ''RMRK::CONSUME::1.0.0::'' r of
        None \<Rightarrow> Inl ''invalid remark''
      | Some i \<Rightarrow> Inr \<lparr> consume_id = i \<rparr>)"

definition sample_Buy_fromRemark :: "string \<Rightarrow> string + Buy" where
  "sample_Buy_fromRemark r =
     (case payload ''RMRK::BUY::1.0.0::'' r of
        None \<Rightarrow> Inl ''invalid remark''
      | Some i \<Rightarrow> Inr \<lparr> buy_id = i \<rparr>)"

definition sample_Emote_fromRemark :: "string \<Rightarrow> string + Emote" where
  "sample_Emote_fromRemark r =
     (case payload ''RMRK::EMOTE::1.0.0::'' r of
        None \<Rightarrow> Inl ''invalid remark''
      | Some i \<Rightarrow> Inr \<lparr> emote_id = i, emote_unicode = ''1F600'' \<rparr>)"

definition sample_getChangeIssuerEntity :: "Remark \<Rightarrow> string + ChangeIssuer" where
  "sample_getChangeIssuerEntity remark =
     (case payload ''RMRK::CHANGEISSUER::1.0.0::'' (rm_remark remark) of
        None \<Rightarrow> Inl ''[CHANGEISSUER] Dead before instantiation: invalid remark''
      | Some i \<Rightarrow> Inr \<lparr> ci_id = i, ci_issuer = bob \<rparr>)"

definition sample_validateMintNFT :: "Remark \<Rightarrow> NFT \<Rightarrow> Collection option \<Rightarrow> string + NFT" where
  "sample_validateMintNFT remark n collection =
     (case collection of
        None \<Rightarrow> Inl ''[MINTNFT] NFT referencing non-existant parent collection''
      | Some c \<Rightarrow>
          if rm_caller remark \<noteq> c_issuer c
          then Inl ''[MINTNFT] Attempted issue of NFT in non-owned collection''
          else Inr (n\<lparr>n_owner := c_issuer c\<rparr>))"

definition sample_owned :: "string \<Rightarrow> Remark \<Rightarrow> NFT option \<Rightarrow> string + NFT" where
  "sample_owned tag remark nft =
     (case nft of
        None \<Rightarrow> Inl (tag @ '' Attempting to act on non-existant NFT'')
      | Some n \<Rightarrow>
          if n_burned n \<noteq> [] then Inl (tag @ '' Attempting to act on burned NFT'')
          else if n_owner n \<noteq> rm_caller remark
          then Inl (tag @ '' Attempting to act on non-owned NFT'')
          else Inr n)"

definition sample_sendInteraction :: "Remark \<Rightarrow> Send \<Rightarrow> NFT option \<Rightarrow> string + NFT option" where
  "sample_sendInteraction remark e nft =
     (case sample_owned ''[SEND]'' remark nft of
        Inl m \<Rightarrow> Inl m
      | Inr n \<Rightarrow> Inr (Some (n\<lparr>n_owner := send_recipient e, n_forsale := 0\<rparr>)))"

definition sample_listForSaleInteraction ::
  "Remark \<Rightarrow> List \<Rightarrow> NFT option \<Rightarrow> string + NFT option" where
  "sample_listForSaleInteraction remark e nft =
     (case sample_owned ''[LIST]'' remark nft of
        Inl m \<Rightarrow> Inl m
      | Inr n \<Rightarrow> Inr (Some (n\<lparr>n_forsale := list_price e\<rparr>)))"

definition sample_consumeInteraction ::
  "Remark \<Rightarrow> Consume \<Rightarrow> NFT option \<Rightarrow> string + NFT option" where
  "sample_consumeInteraction remark e nft =
     (case sample_owned ''[CONSUME]'' remark nft of
        Inl m \<Rightarrow> Inl m
      | Inr n \<Rightarrow> Inr (Some (n\<lparr>n_burned := ''true''\<rparr>)))"

definition sample_buyInteraction ::
  "Remark \<Rightarrow> Buy \<Rightarrow> NFT option \<Rightarrow> int option \<Rightarrow> string + NFT option" where
  "sample_buyInteraction remark e nft ss58 =
     (case nft of
        None \<Rightarrow> Inl ''[BUY] Attempting to buy non-existant NFT''
      | Some n \<Rightarrow>
          if n_burned n \<noteq> [] then Inl ''[BUY] Attempting to buy burned NFT''
          else if n_forsale n \<le> 0 then Inl ''[BUY] Attempting to buy not-for-sale NFT''
          else Inr (Some (n\<lparr>n_owner := rm_caller remark, n_forsale := 0\<rparr>)))"

definition sample_emoteInteraction ::
  "Remark \<Rightarrow> Emote \<Rightarrow> NFT option \<Rightarrow> bool \<Rightarrow> string + NFT option" where
  "sample_emoteInteraction remark e nft emitChanges =
     (case nft of
        None \<Rightarrow> Inl ''[EMOTE] Attempting to emote on non-existant NFT''
      | Some n \<Rightarrow>
          if n_burned n \<noteq> [] then Inl ''[EMOTE] Cannot emote to a burned NFT''
          else Inr (Some (n\<lparr>n_reactions :=
                 (case map_of (n_reactions n) (emote_unicode e) of
                    None \<Rightarrow> AList.update (emote_unicode e) [rm_caller remark] (n_reactions n)
                  | Some who \<Rightarrow>
                      AList.update (emote_unicode e)
                        (if rm_caller remark \<in> set who then removeAll (rm_caller remark) who
                         else who @ [rm_caller remark])
                        (n_reactions n))\<rparr>)))"

definition sample_changeIssuerInteraction ::
  "Remark \<Rightarrow> ChangeIssuer \<Rightarrow> Collection option \<Rightarrow> string + Collection option" where
  "sample_changeIssuerInteraction remark e collection =
     (case collection of
        None \<Rightarrow> Inl ''[CHANGEISSUER] Attempting to change issuer of non-existant collection''
      | Some c \<Rightarrow>
          if rm_caller remark \<noteq> c_issuer c
          then Inl ''[CHANGEISSUER] Attempting to change issuer of non-owned collection''
          else Inr (Some (c\<lparr>c_issuer := ci_issuer e\<rparr>)))"

definition sample_collectionToInstance :: "CollectionConsolidated option \<Rightarrow> Collection option" where
  "sample_collectionToInstance cc =
     (case cc of
        None \<Rightarrow> None
      | Some c \<Rightarrow>
          Some \<lparr> c_block = cc_block c, c_name = cc_name c, c_max = cc_max c,
                 c_issuer = cc_issuer c, c_symbol = cc_symbol c, c_id = cc_id c,
                 c_metadata = cc_metadata c, c_changes = cc_changes c \<rparr>)"

definition sample_NFTtoInstance :: "NFTConsolidated option \<Rightarrow> NFT option" where
  "sample_NFTtoInstance nc =
     (case nc of
        None \<Rightarrow> None
      | Some c \<Rightarrow>
          Some \<lparr> n_block = nc_block c, n_collection = nc_collection c, n_name = nc_name c,
                 n_instance = nc_instance c, n_transferable = nc_transferable c,
                 n_sn = nc_sn c, n_metadata = nc_metadata c, n_data = nc_data c,
                 n_forsale = nc_forsale c, n_reactions = nc_reactions c,
                 n_changes = nc_changes c, n_owner = nc_owner c, n_burned = nc_burned c,
                 n_updatedAtBlock = nc_updatedAtBlock c \<rparr>)"

definition sample_env :: Deps where
  "sample_env =
     \<lparr> OP = sample_OP,
       Collection_fromRemark = sample_Collection_fromRemark,
       Collection_generateId = sample_generateId,
       NFT_fromRemark = sample_NFT_fromRemark,
       NFT_getId = sample_getId,
       Send_fromRemark = sample_Send_fromRemark,
       List_fromRemark = sample_List_fromRemark,
       Consume_fromRemark = sample_Consume_fromRemark,
       Buy_fromRemark = sample_Buy_fromRemark,
       Emote_fromRemark = sample_Emote_fromRemark,
       getChangeIssuerEntity = sample_getChangeIssuerEntity,
       decodeAddress = sample_decodeAddress,
       u8aToHex = sample_u8aToHex,
       validateMintNFT = sample_validateMintNFT,
       sendInteraction = sample_sendInteraction,
       listForSaleInteraction = sample_listForSaleInteraction,
       consumeInteraction = sample_consumeInteraction,
       buyInteraction = sample_buyInteraction,
       emoteInteraction = sample_emoteInteraction,
       changeIssuerInteraction = sample_changeIssuerInteraction,
       consolidatedCollectionToInstance = sample_collectionToInstance,
       consolidatedNFTtoInstance = sample_NFTtoInstance \<rparr>"

text \<open>Sample remarks and a store that holds the collection ALPHA and its item ONE.\<close>

definition remark_mint_alpha :: Remark where
  "remark_mint_alpha =
     \<lparr> rm_block = 10, rm_caller = alice, rm_interaction_type = ''MINT'',
       rm_remark = ''RMRK::MINT::1.0.0::ALPHA'' \<rparr>"

definition remark_mint_embedded :: Remark where
  "remark_mint_embedded =
     \<lparr> rm_block = 10, rm_caller = alice, rm_interaction_type = ''MINT'',
       rm_remark = ''RMRK::MINT::1.0.0::ABCDEFGHIJKLMNOPQRSTUVWXYZABCDEFGHIJKLMa56da27d'' \<rparr>"

definition remark_mint_undecodable :: Remark where
  "remark_mint_undecodable =
     \<lparr> rm_block = 10, rm_caller = ''not-an-address'', rm_interaction_type = ''MINT'',
       rm_remark = ''RMRK::MINT::1.0.0::ALPHA'' \<rparr>"

definition remark_mintnft_one :: Remark where
  "remark_mintnft_one =
     \<lparr> rm_block = 11, rm_caller = alice, rm_interaction_type = ''MINTNFT'',
       rm_remark = ''RMRK::MINTNFT::1.0.0::ONE'' \<rparr>"

definition remark_emote_one :: "int \<Rightarrow> Remark" where
  "remark_emote_one block =
     \<lparr> rm_block = block, rm_caller = bob, rm_interaction_type = ''EMOTE'',
       rm_remark = ''RMRK::EMOTE::1.0.0::d43593c715a56da27d-ALPHA-ONE-0000000000000001'' \<rparr>"

definition remark_list_one :: Remark where
  "remark_list_one =
     \<lparr> rm_block = 13, rm_caller = alice, rm_interaction_type = ''LIST'',
       rm_remark = ''RMRK::LIST::1.0.0::d43593c715a56da27d-ALPHA-ONE-0000000000000001'' \<rparr>"

definition remark_unknown :: Remark where
  "remark_unknown =
     \<lparr> rm_block = 14, rm_caller = alice, rm_interaction_type = ''RESADD'',
       rm_remark = ''RMRK::RESADD::2.0.0::ONE'' \<rparr>"

definition item_one :: NFTConsolidated where
  "item_one =
     \<lparr> nc_id = ''d43593c715a56da27d-ALPHA-ONE-0000000000000001'', nc_block = 11,
       nc_collection = ''d43593c715a56da27d-ALPHA'', nc_name = ''ONE'', nc_instance = ''ONE'',
       nc_transferable = 1, nc_sn = ''0000000000000001'', nc_metadata = None, nc_data = None,
       nc_forsale = 0, nc_reactions = [], nc_changes = [], nc_owner = alice,
       nc_loadedMetadata = None, nc_burned = [], nc_updatedAtBlock = Some 11 \<rparr>"

definition collection_alpha :: CollectionConsolidated where
  "collection_alpha =
     \<lparr> cc_block = 10, cc_name = ''ALPHA'', cc_max = 0, cc_issuer = alice, cc_symbol = ''ALPHA'',
       cc_id = ''d43593c715a56da27d-ALPHA'', cc_metadata = ''ipfs://ipfs/collection'',
       cc_changes = [], cc_loadedMetadata = None, cc_updatedAtBlock = None \<rparr>"

definition store_one :: InMemoryStore where
  "store_one =
     \<lparr> im_nfts = [(''d43593c715a56da27d-ALPHA-ONE-0000000000000001'', item_one)],
       im_collections = [(''d43593c715a56da27d-ALPHA'', collection_alpha)] \<rparr>"

text \<open>
  The instance of ALPHA that \<open>sample_Collection_fromRemark\<close> yields at block 10, the
  store that holds it alone, and the invalid call of a second MINT of ALPHA.
\<close>

definition alpha :: Collection where
  "alpha =
     \<lparr> c_block = 10, c_name = ''ALPHA'', c_max = 0, c_issuer = alice, c_symbol = ''ALPHA'',
       c_id = ''d43593c715a56da27d-ALPHA'', c_metadata = ''ipfs://ipfs/collection'',
       c_changes = [] \<rparr>"

definition duplicate_alpha :: InvalidCall where
  "duplicate_alpha =
     \<lparr> ic_message = ''[MINT] Attempt to mint already existing collection'',
       ic_caller = alice, ic_block = 10, ic_object_id = ''d43593c715a56da27d-ALPHA'',
       ic_op_type = ''MINT'' \<rparr>"

definition store_alpha :: InMemoryStore where
  "store_alpha =
     \<lparr> im_nfts = [], im_collections = [(''d43593c715a56da27d-ALPHA'', collection_alpha)] \<rparr>"

text \<open>
  The instance of the item ONE after its validation, the engine after MINT of ALPHA and
  after MINTNFT of ONE on a fresh in-memory adapter, and the invalid calls of a second
  MINTNFT of ONE and of a MINT by a caller that is no address.
\<close>

definition undecodable_alpha :: InvalidCall where
  "undecodable_alpha =
     \<lparr> ic_message = ''Decoding not-an-address: Invalid address'',
       ic_caller = ''not-an-address'', ic_block = 10,
       ic_object_id = ''d43593c715a56da27d-ALPHA'', ic_op_type = ''MINT'' \<rparr>"

definition one :: NFT where
  "one =
     \<lparr> n_block = 11, n_collection = ''d43593c715a56da27d-ALPHA'', n_name = ''ONE'',
       n_instance = ''ONE'', n_transferable = 1, n_sn = ''0000000000000001'',
       n_metadata = None, n_data = None, n_forsale = 0, n_reactions = [], n_changes = [],
       n_owner = alice, n_burned = [], n_updatedAtBlock = None \<rparr>"

definition duplicate_one :: InvalidCall where
  "duplicate_one =
     \<lparr> ic_message = ''[MINTNFT] Attempt to mint already existing NFT'',
       ic_caller = alice, ic_block = 11,
       ic_object_id = ''d43593c715a56da27d-ALPHA-ONE-0000000000000001'',
       ic_op_type = ''MINTNFT'' \<rparr>"

definition minted_alpha :: "InMemoryStore Consolidator" where
  "minted_alpha =
     (Consolidator_new None InMemoryAdapter_new None None)
       \<lparr> collections := [alpha], dbAdapter := store_alpha,
         adapterCalls := [M_getCollectionById, M_updateCollectionMint] \<rparr>"

definition minted_one :: "InMemoryStore Consolidator" where
  "minted_one =
     minted_alpha
       \<lparr> nfts := [one], dbAdapter := store_one,
         adapterCalls := [M_getCollectionById, M_updateCollectionMint, M_getNFTByIdUnique,
                          M_getCollectionById, M_updateNFTMint] \<rparr>"

text \<open>No call throws.\<close>

definition no_throws :: Throws where
  "no_throws =
     \<lparr> Collection_fromRemark_throws = (\<lambda>r b. None), NFT_fromRemark_throws = (\<lambda>r b. None),
       NFT_getId_throws = (\<lambda>n. None), Send_fromRemark_throws = (\<lambda>r. None),
       List_fromRemark_throws = (\<lambda>r. None), Consume_fromRemark_throws = (\<lambda>r. None),
       Buy_fromRemark_throws = (\<lambda>r. None), Emote_fromRemark_throws = (\<lambda>r. None),
       u8aToHex_throws = (\<lambda>b. None), consolidatedCollectionToInstance_throws = (\<lambda>c. None),
       consolidatedNFTtoInstance_throws = (\<lambda>c. None) \<rparr>"







section \<open>Notions used in the statements\<close>

text \<open>
  The instance with \<open>L\<close> put before its invalid-call ledger and \<open>K\<close> before its
  interaction-change log.
\<close>

definition with_ledgers ::
  "InvalidCall list \<Rightarrow> InteractionChanges \<Rightarrow> 's Consolidator \<Rightarrow> 's Consolidator" where
  "with_ledgers L K this =
     this\<lparr>invalidCalls := L @ invalidCalls this, interactionChanges := K @ interactionChanges this\<rparr>"

text \<open>
  Dispatching every remark in order and discarding the boolean of each handler; only a
  rejected handler ends it.
\<close>

fun dispatch_every ::
  "Deps \<Rightarrow> 's IConsolidatorAdapter \<Rightarrow> Remark list \<Rightarrow> 's Consolidator \<Rightarrow> string + 's Consolidator" where
  "dispatch_every env ad [] this = Inr this"
| "dispatch_every env ad (remark # remarks) this =
     (case switch_interaction env ad remark this of
        Inl e \<Rightarrow> Inl e
      | Inr outcome \<Rightarrow> dispatch_every env ad remarks (snd outcome))"

text \<open>No method of the adapter throws, in any state and on any argument.\<close>

definition adapter_never_throws :: "'s IConsolidatorAdapter \<Rightarrow> bool" where
  "adapter_never_throws ad \<longleftrightarrow>
     (\<forall>s i. \<not> isl (getCollectionById ad s i)) \<and>
     (\<forall>s i. \<not> isl (getNFTById ad s i)) \<and>
     (\<forall>s i. \<not> isl (getNFTByIdUnique ad s i)) \<and>
     (\<forall>s c. \<not> isl (updateCollectionMint ad s c)) \<and>
     (\<forall>s n b. \<not> isl (updateNFTMint ad s n b)) \<and>
     (\<forall>s n c b. \<not> isl (updateNFTSend ad s n c b)) \<and>
     (\<forall>s n c b. \<not> isl (updateNFTList ad s n c b)) \<and>
     (\<forall>s n c b. \<not> isl (updateNFTConsume ad s n c b)) \<and>
     (\<forall>s n c b. \<not> isl (updateNFTBuy ad s n c b)) \<and>
     (\<forall>s n c b. \<not> isl (updateNFTEmote ad s n c b)) \<and>
     (\<forall>s col c b. \<not> isl (updateCollectionIssuer ad s col c b)) \<and>
     (case getAllNFTs ad of None \<Rightarrow> True | Some f \<Rightarrow> \<forall>s. \<not> isl (f s)) \<and>
     (case getAllCollections ad of None \<Rightarrow> True | Some f \<Rightarrow> \<forall>s. \<not> isl (f s))"

text \<open>One handler changes the adapter's state by at most one successful write.\<close>

inductive adapter_step :: "'s IConsolidatorAdapter \<Rightarrow> 's \<Rightarrow> 's \<Rightarrow> bool" for ad where
  step_none: "adapter_step ad s s"
| step_collectionMint: "updateCollectionMint ad s col = Inr s' \<Longrightarrow> adapter_step ad s s'"
| step_nftMint: "updateNFTMint ad s n b = Inr s' \<Longrightarrow> adapter_step ad s s'"
| step_send: "updateNFTSend ad s n c b = Inr s' \<Longrightarrow> adapter_step ad s s'"
| step_list: "updateNFTList ad s n c b = Inr s' \<Longrightarrow> adapter_step ad s s'"
| step_consume: "updateNFTConsume ad s n c b = Inr s' \<Longrightarrow> adapter_step ad s s'"
| step_buy: "updateNFTBuy ad s n c b = Inr s' \<Longrightarrow> adapter_step ad s s'"
| step_emote: "updateNFTEmote ad s n c b = Inr s' \<Longrightarrow> adapter_step ad s s'"
| step_issuer: "updateCollectionIssuer ad s col cc b = Inr s' \<Longrightarrow> adapter_step ad s s'"

text \<open>
  The in-memory store is well formed: no id is stored twice, and every entity is stored
  under its own id.
\<close>

definition im_wf :: "InMemoryStore \<Rightarrow> bool" where
  "im_wf s \<longleftrightarrow>
     distinct (map fst (im_nfts s)) \<and> (\<forall>(k, v) \<in> set (im_nfts s). nc_id v = k) \<and>
     distinct (map fst (im_collections s)) \<and> (\<forall>(k, v) \<in> set (im_collections s). cc_id v = k)"

text \<open>
  From one state of the in-memory store to a later one: well-formedness is kept and no id
  is removed.
\<close>

definition im_grows :: "InMemoryStore \<Rightarrow> InMemoryStore \<Rightarrow> bool" where
  "im_grows s s' \<longleftrightarrow>
     (im_wf s \<longrightarrow> im_wf s') \<and>
     fst ` set (im_collections s) \<subseteq> fst ` set (im_collections s') \<and>
     fst ` set (im_nfts s) \<subseteq> fst ` set (im_nfts s')"

text \<open>The constructor's options are read-only: a handler leaves them as they are.\<close>

definition config_kept :: "'s Consolidator \<Rightarrow> 's Consolidator \<Rightarrow> bool" where
  "config_kept this this' \<longleftrightarrow>
     ss58Format this' = ss58Format this \<and>
     emitEmoteChanges this' = emitEmoteChanges this \<and>
     emitInteractionChanges this' = emitInteractionChanges this"

text \<open>
  None of the functions the handlers call outside \<open>try\<close> ever throws: the parsers of
  the six handlers that call theirs there, \<open>getId\<close> and the two converters.
  \<open>Collection.fromRemark\<close> and \<open>u8aToHex\<close>, called inside \<open>try\<close> only, may throw.
\<close>

definition imports_never_throw :: "Throws \<Rightarrow> bool" where
  "imports_never_throw thr \<longleftrightarrow>
     (\<forall>r b. NFT_fromRemark_throws thr r b = None) \<and>
     (\<forall>n. NFT_getId_throws thr n = None) \<and>
     (\<forall>r. Send_fromRemark_throws thr r = None) \<and>
     (\<forall>r. List_fromRemark_throws thr r = None) \<and>
     (\<forall>r. Consume_fromRemark_throws thr r = None) \<and>
     (\<forall>r. Buy_fromRemark_throws thr r = None) \<and>
     (\<forall>r. Emote_fromRemark_throws thr r = None) \<and>
     (\<forall>c. consolidatedCollectionToInstance_throws thr c = None) \<and>
     (\<forall>c. consolidatedNFTtoInstance_throws thr c = None)"






section \<open>General facts about the handlers\<close>

lemmas handler_defs = mint_def mintNFT_def send_def list_def consume_def buy_def emote_def changeIssuer_def
lemmas effect_defs = adapterRead_def adapterWrite_def updateInvalidCalls_def pushInteractionChange_def

subsection \<open>Frame\<close>

lemma handlers_frame:
  "mint env ad remark (with_ledgers L K this) = map_sum id (map_prod id (with_ledgers L K)) (mint env ad remark this)"
  "mintNFT env ad remark (with_ledgers L K this) = map_sum id (map_prod id (with_ledgers L K)) (mintNFT env ad remark this)"
  "send env ad remark (with_ledgers L K this) = map_sum id (map_prod id (with_ledgers L K)) (send env ad remark this)"
  "list env ad remark (with_ledgers L K this) = map_sum id (map_prod id (with_ledgers L K)) (list env ad remark this)"
  "consume env ad remark (with_ledgers L K this) = map_sum id (map_prod id (with_ledgers L K)) (consume env ad remark this)"
  "buy env ad remark (with_ledgers L K this) = map_sum id (map_prod id (with_ledgers L K)) (buy env ad remark this)"
  "emote env ad remark (with_ledgers L K this) = map_sum id (map_prod id (with_ledgers L K)) (emote env ad remark this)"
  "changeIssuer env ad remark (with_ledgers L K this) = map_sum id (map_prod id (with_ledgers L K)) (changeIssuer env ad remark this)"
  unfolding handler_defs effect_defs with_ledgers_def
  by (auto split: sum.splits option.splits prod.splits)

lemma switch_frame:
  "switch_interaction env ad remark (with_ledgers L K this) =
     map_sum id (map_prod id (with_ledgers L K)) (switch_interaction env ad remark this)"
  unfolding switch_interaction_def by (simp add: handlers_frame) (simp add: with_ledgers_def)

lemma remarks_frame:
  "consolidate_remarks env ad remarks (with_ledgers L K this) =
     map_sum id (with_ledgers L K) (consolidate_remarks env ad remarks this)"
proof (induction remarks arbitrary: this)
  case Nil
  show ?case by simp
next
  case (Cons r rs)
  show ?case
    by (cases "switch_interaction env ad r this") (auto simp: switch_frame Cons.IH)
qed

subsection \<open>Booleans\<close>

lemma always_true:
  "list env ad remark this = Inr (b, this') \<Longrightarrow> b"
  "buy env ad remark this = Inr (b, this') \<Longrightarrow> b"
  "consume env ad remark this = Inr (b, this') \<Longrightarrow> b"
  unfolding handler_defs effect_defs
  by (auto split: sum.splits option.splits prod.splits if_splits)

lemma false_on_success:
  "mint env ad remark this = Inr (b, this') \<Longrightarrow> b \<longleftrightarrow> invalidCalls this' \<noteq> invalidCalls this"
  "mintNFT env ad remark this = Inr (b, this') \<Longrightarrow> b \<longleftrightarrow> invalidCalls this' \<noteq> invalidCalls this"
  "send env ad remark this = Inr (b, this') \<Longrightarrow> b \<longleftrightarrow> invalidCalls this' \<noteq> invalidCalls this"
  "emote env ad remark this = Inr (b, this') \<Longrightarrow> b \<longleftrightarrow> invalidCalls this' \<noteq> invalidCalls this"
  "changeIssuer env ad remark this = Inr (b, this') \<Longrightarrow> b \<longleftrightarrow> invalidCalls this' \<noteq> invalidCalls this"
  unfolding handler_defs effect_defs
  by (auto split: sum.splits option.splits prod.splits if_splits)

lemma loop_ignores_boolean:
  "consolidate_remarks env ad remarks this = dispatch_every env ad remarks this"
  by (induction remarks arbitrary: this) (auto split: sum.splits)

subsection \<open>Configuration and adapter steps\<close>

lemma handlers_config:
  "mint env ad remark this = Inr (b, this') \<Longrightarrow> config_kept this this'"
  "mintNFT env ad remark this = Inr (b, this') \<Longrightarrow> config_kept this this'"
  "send env ad remark this = Inr (b, this') \<Longrightarrow> config_kept this this'"
  "list env ad remark this = Inr (b, this') \<Longrightarrow> config_kept this this'"
  "consume env ad remark this = Inr (b, this') \<Longrightarrow> config_kept this this'"
  "buy env ad remark this = Inr (b, this') \<Longrightarrow> config_kept this this'"
  "emote env ad remark this = Inr (b, this') \<Longrightarrow> config_kept this this'"
  "changeIssuer env ad remark this = Inr (b, this') \<Longrightarrow> config_kept this this'"
  unfolding handler_defs effect_defs config_kept_def
  by (auto split: sum.splits option.splits prod.splits if_splits)

lemma handlers_step:
  "mint env ad remark this = Inr (b, this') \<Longrightarrow> adapter_step ad (dbAdapter this) (dbAdapter this')"
  "mintNFT env ad remark this = Inr (b, this') \<Longrightarrow> adapter_step ad (dbAdapter this) (dbAdapter this')"
  "send env ad remark this = Inr (b, this') \<Longrightarrow> adapter_step ad (dbAdapter this) (dbAdapter this')"
  "list env ad remark this = Inr (b, this') \<Longrightarrow> adapter_step ad (dbAdapter this) (dbAdapter this')"
  "consume env ad remark this = Inr (b, this') \<Longrightarrow> adapter_step ad (dbAdapter this) (dbAdapter this')"
  "buy env ad remark this = Inr (b, this') \<Longrightarrow> adapter_step ad (dbAdapter this) (dbAdapter this')"
  "emote env ad remark this = Inr (b, this') \<Longrightarrow> adapter_step ad (dbAdapter this) (dbAdapter this')"
  "changeIssuer env ad remark this = Inr (b, this') \<Longrightarrow> adapter_step ad (dbAdapter this) (dbAdapter this')"
  unfolding handler_defs effect_defs
  by (auto split: sum.splits option.splits prod.splits if_splits
      simp: adapter_step.step_none
      intro: adapter_step.intros(2-))

subsection \<open>Handlers return when the adapter's reads do\<close>

lemma never_throws_reads:
  assumes "adapter_never_throws ad"
  shows "getCollectionById ad s i \<noteq> Inl e" "getNFTById ad s i \<noteq> Inl e"
    "getNFTByIdUnique ad s i \<noteq> Inl e"
  using assms unfolding adapter_never_throws_def by (metis sum.disc(1))+

lemma handlers_return:
  assumes "adapter_never_throws ad"
  shows "\<not> isl (mint env ad remark this)"
    "\<not> isl (mintNFT env ad remark this)"
    "\<not> isl (send env ad remark this)"
    "\<not> isl (list env ad remark this)"
    "\<not> isl (consume env ad remark this)"
    "\<not> isl (buy env ad remark this)"
    "\<not> isl (emote env ad remark this)"
    "\<not> isl (changeIssuer env ad remark this)"
  unfolding handler_defs effect_defs
  by (simp_all add: never_throws_reads[OF assms] Let_def split: sum.split option.split prod.split)

lemma switch_returns:
  "adapter_never_throws ad \<Longrightarrow> \<not> isl (switch_interaction env ad remark this)"
  unfolding switch_interaction_def by (simp add: handlers_return)

lemma remarks_return:
  "adapter_never_throws ad \<Longrightarrow> \<not> isl (consolidate_remarks env ad remarks this)"
proof (induction remarks arbitrary: this)
  case Nil
  show ?case by simp
next
  case (Cons r rs)
  from Cons.prems have "\<not> isl (switch_interaction env ad r this)" by (rule switch_returns)
  then obtain b this' where "switch_interaction env ad r this = Inr (b, this')"
    by (cases "switch_interaction env ad r this") auto
  with Cons show ?case by simp
qed

lemma bulk_read_returns:
  fixes g :: "('s \<Rightarrow> string + 'x list) option"
  assumes "\<And>f s e. g = Some f \<Longrightarrow> f s \<noteq> Inl e"
  shows "\<exists>v this2. (case g of Some f \<Rightarrow> adapterRead m f t | None \<Rightarrow> Inr ([], t)) = Inr (v, this2)"
proof (cases g)
  case None
  then show ?thesis by simp
next
  case (Some f)
  with assms have "f (dbAdapter t) \<noteq> Inl e" for e by simp
  then obtain v where "f (dbAdapter t) = Inr v" by (cases "f (dbAdapter t)") auto
  with Some show ?thesis by (simp add: adapterRead_def)
qed

lemma consolidate_returns:
  assumes "adapter_never_throws ad"
  shows "\<exists>snapshot this'. consolidate env ad rmrks this = Inr (snapshot, this')"
proof -
  obtain this1 where l: "consolidate_remarks env ad (case rmrks of Some rs \<Rightarrow> rs | None \<Rightarrow> []) this = Inr this1"
    using remarks_return[OF assms, of env _ this] by (metis sum.collapse(2))
  have n: "f s \<noteq> Inl e" if "getAllNFTs ad = Some f" for f s e
  proof -
    from assms that have "\<forall>s. \<not> isl (f s)" unfolding adapter_never_throws_def by simp
    then show ?thesis by (metis sum.disc(1))
  qed
  have c: "f s \<noteq> Inl e" if "getAllCollections ad = Some f" for f s e
  proof -
    from assms that have "\<forall>s. \<not> isl (f s)" unfolding adapter_never_throws_def by simp
    then show ?thesis by (metis sum.disc(1))
  qed
  from bulk_read_returns[where g="getAllNFTs ad" and m=M_getAllNFTs and t=this1] n obtain ns this2 where
    a: "(case getAllNFTs ad of Some f \<Rightarrow> adapterRead M_getAllNFTs f this1 | None \<Rightarrow> Inr ([], this1)) = Inr (ns, this2)"
    by blast
  from bulk_read_returns[where g="getAllCollections ad" and m=M_getAllCollections and t=this2] c obtain cs this3 where
    b: "(case getAllCollections ad of Some f \<Rightarrow> adapterRead M_getAllCollections f this2 | None \<Rightarrow> Inr ([], this2)) = Inr (cs, this3)"
    by blast
  show ?thesis
    unfolding consolidate_def by (simp add: l a b Let_def)
qed

subsection \<open>Evaluation of the sample environment\<close>

lemmas sample_defs = sample_env_def sample_OP_def sample_Collection_fromRemark_def payload_def
  sample_NFT_fromRemark_def sample_getId_def sample_Send_fromRemark_def sample_List_fromRemark_def
  sample_Consume_fromRemark_def sample_Buy_fromRemark_def sample_Emote_fromRemark_def
  sample_getChangeIssuerEntity_def sample_validateMintNFT_def sample_owned_def
  sample_sendInteraction_def sample_listForSaleInteraction_def sample_consumeInteraction_def
  sample_buyInteraction_def sample_emoteInteraction_def sample_changeIssuerInteraction_def
  sample_collectionToInstance_def sample_NFTtoInstance_def sample_decodeAddress_def
  sample_generateId_def alice_def bob_def
  remark_mint_alpha_def remark_mint_embedded_def remark_mint_undecodable_def
  remark_mintnft_one_def remark_emote_one_def remark_list_one_def remark_unknown_def
  item_one_def collection_alpha_def store_one_def
lemmas sample_values = alpha_def duplicate_alpha_def store_alpha_def
lemmas sample_states = one_def duplicate_one_def minted_alpha_def minted_one_def
  undecodable_alpha_def
lemmas im_defs = InMemoryAdapter_def InMemoryAdapter_new_def collection_consolidated_def
  nft_consolidated_def im_apply_nft_def im_apply_collection_def WriteOnlyAdapter_def
lemmas run_defs = consolidate_def switch_interaction_def handler_defs effect_defs
  getCollectionFromRemark_def validateMintIds_def Consolidator_new_def substr_def substring_def

lemma sample_pubkey_hex:
  "sample_u8aToHex alice_pubkey = ''0xd43593c715fdd31c61141abd04a99fd6822c8558854ccde39a5684e7a56da27d''"
  by (simp add: sample_u8aToHex_def alice_pubkey_def hex_digit_def)


subsection \<open>Loop facts\<close>

lemma switch_config:
  "switch_interaction env ad remark this = Inr (b, this') \<Longrightarrow> config_kept this this'"
  unfolding switch_interaction_def
  by (auto split: if_splits dest: handlers_config) (simp add: config_kept_def)

lemma remarks_config:
  "consolidate_remarks env ad remarks this = Inr this' \<Longrightarrow> config_kept this this'"
proof (induction remarks arbitrary: this)
  case Nil
  then show ?case by (simp add: config_kept_def)
next
  case (Cons r rs)
  then obtain b this1 where s: "switch_interaction env ad r this = Inr (b, this1)"
    and l: "consolidate_remarks env ad rs this1 = Inr this'"
    by (auto split: sum.splits if_splits)
  from switch_config[OF s] Cons.IH[OF l] show ?case by (simp add: config_kept_def)
qed

lemma consolidate_result:
  assumes "consolidate env ad rmrks this = Inr (snapshot, this')"
  shows "\<exists>this1. consolidate_remarks env ad (case rmrks of Some rs \<Rightarrow> rs | None \<Rightarrow> []) this = Inr this1
     \<and> dbAdapter this' = dbAdapter this1
     \<and> invalidCalls this' = invalidCalls this1
     \<and> interactionChanges this' = interactionChanges this1
     \<and> emitInteractionChanges this' = emitInteractionChanges this1
     \<and> (case getAllNFTs ad of None \<Rightarrow> res_nfts snapshot = []
          | Some f \<Rightarrow> f (dbAdapter this1) = Inr (res_nfts snapshot))
     \<and> (case getAllCollections ad of None \<Rightarrow> res_collections snapshot = []
          | Some f \<Rightarrow> f (dbAdapter this1) = Inr (res_collections snapshot))
     \<and> res_invalid snapshot = invalidCalls this1
     \<and> res_changes snapshot =
         (if emitInteractionChanges this1 then Some (interactionChanges this1) else None)
     \<and> res_lastBlock snapshot = None"
proof -
  from assms obtain this1 where
    l: "consolidate_remarks env ad (case rmrks of Some rs \<Rightarrow> rs | None \<Rightarrow> []) this = Inr this1"
    unfolding consolidate_def by (auto simp: Let_def split: sum.splits)
  from assms show ?thesis
    unfolding consolidate_def adapterRead_def
    by (intro exI[of _ this1]) (auto simp: l Let_def split: sum.splits option.splits)
qed

subsection \<open>Frames of consolidate\<close>

lemma consolidate_frame:
  "consolidate env ad rmrks (with_ledgers L K this) =
     map_sum id (\<lambda>(snapshot, this').
         (snapshot\<lparr>res_invalid := L @ res_invalid snapshot,
                   res_changes := map_option ((@) K) (res_changes snapshot)\<rparr>,
          with_ledgers L K this'))
       (consolidate env ad rmrks this)"
proof (cases "consolidate_remarks env ad (case rmrks of Some rs \<Rightarrow> rs | None \<Rightarrow> []) this")
  case (Inl e)
  then show ?thesis by (simp add: consolidate_def remarks_frame)
next
  case (Inr this1)
  then show ?thesis
    by (simp add: consolidate_def remarks_frame)
      (auto simp: adapterRead_def with_ledgers_def split: sum.splits option.splits)
qed

lemma ledgers_split:
  "this = with_ledgers (invalidCalls this) (interactionChanges this)
            (this\<lparr>invalidCalls := [], interactionChanges := []\<rparr>)"
  by (simp add: with_ledgers_def)

section \<open>The in-memory store under the engine\<close>

lemma update_entries:
  "(a, b) \<in> set (AList.update k v al) \<Longrightarrow> (a, b) \<in> set al \<or> (a = k \<and> b = v)"
  by (induction al) (auto split: if_splits)

lemma stored_once:
  "distinct (map fst al) \<Longrightarrow> \<forall>(k', v') \<in> set al. f v' = k' \<Longrightarrow> k \<in> fst ` set al
     \<Longrightarrow> length (filter (\<lambda>v. f v = k) (map snd al)) = 1"
proof (induction al)
  case Nil
  then show ?case by simp
next
  case (Cons a al)
  show ?case
  proof (cases "fst a = k")
    case True
    with Cons.prems have "k \<notin> fst ` set al" by auto
    with Cons.prems have "filter (\<lambda>v. f v = k) (map snd al) = []"
      by (force simp: filter_empty_conv)
    with True Cons.prems show ?thesis by (cases a) auto
  next
    case False
    with Cons.prems have "k \<in> fst ` set al" by auto
    with Cons False show ?thesis by (cases a) auto
  qed
qed

lemma update_keeps_ids:
  "\<forall>(k', v') \<in> set al. f v' = k' \<Longrightarrow> f v = k
     \<Longrightarrow> \<forall>(k', v') \<in> set (AList.update k v al). f v' = k'"
  by (auto dest!: update_entries)

lemma im_grows_refl: "im_grows s s"
  by (simp add: im_grows_def)

lemma put_collection_grows:
  "cc_id v = k \<Longrightarrow> im_grows s (s\<lparr>im_collections := AList.update k v (im_collections s)\<rparr>)"
  using update_keeps_ids[of "im_collections s" cc_id v k]
  by (simp add: im_grows_def im_wf_def AList.distinct_update dom_update subset_insertI)

lemma put_nft_grows:
  "nc_id v = k \<Longrightarrow> im_grows s (s\<lparr>im_nfts := AList.update k v (im_nfts s)\<rparr>)"
  using update_keeps_ids[of "im_nfts s" nc_id v k]
  by (simp add: im_grows_def im_wf_def AList.distinct_update dom_update subset_insertI)

lemma im_writes:
  "updateCollectionMint (InMemoryAdapter env) s col =
     Inr (s\<lparr>im_collections :=
            AList.update (c_id col) (collection_consolidated col None) (im_collections s)\<rparr>)"
  "updateNFTMint (InMemoryAdapter env) s n b =
     Inr (s\<lparr>im_nfts := AList.update (NFT_getId env n) (nft_consolidated env n b) (im_nfts s)\<rparr>)"
  "updateNFTSend (InMemoryAdapter env) = im_apply_nft env"
  "updateNFTList (InMemoryAdapter env) = im_apply_nft env"
  "updateNFTConsume (InMemoryAdapter env) = im_apply_nft env"
  "updateNFTBuy (InMemoryAdapter env) = im_apply_nft env"
  "updateNFTEmote (InMemoryAdapter env) = im_apply_nft env"
  "updateCollectionIssuer (InMemoryAdapter env) = im_apply_collection"
  by (simp_all add: InMemoryAdapter_def)

lemma im_reads:
  "getCollectionById (InMemoryAdapter env) s i = Inr (map_of (im_collections s) i)"
  "getNFTById (InMemoryAdapter env) s i = Inr (map_of (im_nfts s) i)"
  "getNFTByIdUnique (InMemoryAdapter env) s i = Inr (map_of (im_nfts s) i)"
  by (simp_all add: InMemoryAdapter_def)

lemma consolidated_ids:
  "cc_id (collection_consolidated col u) = c_id col"
  "nc_id (nft_consolidated env n b) = NFT_getId env n"
  by (simp_all add: collection_consolidated_def nft_consolidated_def)

lemma im_apply_grows:
  "im_apply_nft env s n c b = Inr s' \<Longrightarrow> im_grows s s'"
  "im_apply_collection s col cc b = Inr s' \<Longrightarrow> im_grows s s'"
  by (auto simp: im_apply_nft_def im_apply_collection_def
      intro!: put_collection_grows put_nft_grows)

lemma im_step_grows:
  assumes "adapter_step (InMemoryAdapter env) s s'"
  shows "im_grows s s'"
  using assms
proof cases
  case step_none
  then show ?thesis by (simp add: im_grows_refl)
next
  case (step_collectionMint col)
  then show ?thesis by (auto simp: im_writes consolidated_ids intro!: put_collection_grows)
next
  case (step_nftMint n b)
  then show ?thesis by (auto simp: im_writes consolidated_ids intro!: put_nft_grows)
qed (simp_all add: im_writes im_apply_grows)

lemma im_grows_trans: "im_grows s s' \<Longrightarrow> im_grows s' s'' \<Longrightarrow> im_grows s s''"
  unfolding im_grows_def by (meson subset_trans)

lemma switch_step:
  "switch_interaction env ad remark this = Inr (b, this')
     \<Longrightarrow> adapter_step ad (dbAdapter this) (dbAdapter this')"
  unfolding switch_interaction_def
  by (auto split: if_splits intro: handlers_step simp: adapter_step.step_none)

lemma remarks_grow:
  "consolidate_remarks env (InMemoryAdapter env) remarks this = Inr this'
     \<Longrightarrow> im_grows (dbAdapter this) (dbAdapter this')"
proof (induction remarks arbitrary: this)
  case Nil
  then show ?case by (simp add: im_grows_refl)
next
  case (Cons r rs)
  then obtain b this1 where s: "switch_interaction env (InMemoryAdapter env) r this = Inr (b, this1)"
    and l: "consolidate_remarks env (InMemoryAdapter env) rs this1 = Inr this'"
    by (auto split: sum.splits if_splits)
  from im_step_grows[OF switch_step[OF s]] Cons.IH[OF l] show ?case by (rule im_grows_trans)
qed

lemma mint_applied:
  assumes "mint env (InMemoryAdapter env) remark this = Inr (False, this')"
  shows "\<exists>collection. getCollectionFromRemark env remark = Inr collection \<and>
           c_id collection \<in> fst ` set (im_collections (dbAdapter this'))"
  using assms unfolding mint_def effect_defs
  by (auto simp: im_reads im_writes dom_update split: sum.splits option.splits prod.splits if_splits)

lemma mintNFT_applied:
  assumes "mintNFT env (InMemoryAdapter env) remark this = Inr (False, this')"
  shows "\<exists>nft nft'. NFT_fromRemark env (rm_remark remark) (rm_block remark) = Inr nft \<and>
           (\<exists>col. validateMintNFT env remark nft col = Inr nft') \<and>
           NFT_getId env nft' \<in> fst ` set (im_nfts (dbAdapter this'))"
  using assms unfolding mintNFT_def effect_defs
  by (auto simp: im_reads im_writes dom_update Let_def
      split: sum.splits option.splits prod.splits if_splits)

lemma mint_existing:
  assumes "getCollectionFromRemark env remark = Inr collection"
    and "c_id collection \<in> fst ` set (im_collections (dbAdapter this))"
  shows "mint env (InMemoryAdapter env) remark this =
     Inr (True, updateInvalidCalls env MINT remark (c_id collection)
             (''['' @ OP env MINT @ ''] Attempt to mint already existing collection'')
             (this\<lparr>adapterCalls := adapterCalls this @ [M_getCollectionById]\<rparr>))"
proof -
  from assms(2) obtain v where "map_of (im_collections (dbAdapter this)) (c_id collection) = Some v"
    by (metis domD dom_map_of_conv_image_fst)
  with assms(1) show ?thesis by (simp add: mint_def effect_defs im_reads)
qed

lemma mintNFT_existing:
  assumes "NFT_fromRemark env (rm_remark remark) (rm_block remark) = Inr nft"
    and "NFT_getId env nft \<in> fst ` set (im_nfts (dbAdapter this))"
  shows "mintNFT env (InMemoryAdapter env) remark this =
     Inr (True, updateInvalidCalls env MINTNFT remark (NFT_getId env nft)
             (''['' @ OP env MINTNFT @ ''] Attempt to mint already existing NFT'')
             (this\<lparr>adapterCalls := adapterCalls this @ [M_getNFTByIdUnique]\<rparr>))"
proof -
  from assms(2) obtain v where "map_of (im_nfts (dbAdapter this)) (NFT_getId env nft) = Some v"
    by (metis domD dom_map_of_conv_image_fst)
  with assms(1) show ?thesis by (simp add: mintNFT_def effect_defs im_reads)
qed

lemma fresh_wf: "im_wf (dbAdapter (Consolidator_new ss58 InMemoryAdapter_new emitEmote emitInteraction))"
  by (simp add: im_wf_def Consolidator_new_def InMemoryAdapter_new_def)

section \<open>Facts about the engine when an imported function throws\<close>

lemma never_throw_calls:
  assumes "imports_never_throw thr"
  shows "returning (NFT_fromRemark_throws thr r b) v1 = Inr v1"
    "returning (NFT_getId_throws thr n) v2 = Inr v2"
    "returning (Send_fromRemark_throws thr r) v3 = Inr v3"
    "returning (List_fromRemark_throws thr r) v4 = Inr v4"
    "returning (Consume_fromRemark_throws thr r) v5 = Inr v5"
    "returning (Buy_fromRemark_throws thr r) v6 = Inr v6"
    "returning (Emote_fromRemark_throws thr r) v7 = Inr v7"
    "returning (consolidatedCollectionToInstance_throws thr c) v8 = Inr v8"
    "returning (consolidatedNFTtoInstance_throws thr c') v9 = Inr v9"
  using assms by (simp_all add: imports_never_throw_def returning_def)

subsection \<open>The handlers return\<close>


subsection \<open>What the handlers record\<close>

lemmas raising_handler_defs = mint_raising_def mintNFT_raising_def send_raising_def
  list_raising_def consume_raising_def buy_raising_def emote_raising_def changeIssuer_raising_def








subsection \<open>The loop and \<open>consolidate\<close> return\<close>




subsection \<open>Where nothing throws, the two embeddings agree\<close>

lemma no_throws_calls: "imports_never_throw no_throws"
  "returning (Collection_fromRemark_throws no_throws r b) v = Inr v"
  "returning (u8aToHex_throws no_throws k) w = Inr w"
  by (simp_all add: imports_never_throw_def no_throws_def returning_def)

lemma mint_no_throws:
  "getCollectionFromRemark_raising no_throws env remark = getCollectionFromRemark env remark"
  "validateMintIds_raising no_throws env collection remark = validateMintIds env collection remark"
  "mint_raising no_throws env ad remark this = mint env ad remark this"
proof -
  show g: "getCollectionFromRemark_raising no_throws env remark = getCollectionFromRemark env remark"
    by (simp add: getCollectionFromRemark_raising_def getCollectionFromRemark_def no_throws_calls
        split: sum.splits)
  show v: "validateMintIds_raising no_throws env collection remark =
      validateMintIds env collection remark" for collection
    by (simp add: validateMintIds_raising_def validateMintIds_def no_throws_calls Let_def
        split: sum.splits)
  show "mint_raising no_throws env ad remark this = mint env ad remark this"
    unfolding mint_raising_def mint_def g v by (rule refl)
qed

lemma handlers_no_throws:
  "mintNFT_raising no_throws env ad remark this = mintNFT env ad remark this"
  "send_raising no_throws env ad remark this = send env ad remark this"
  "list_raising no_throws env ad remark this = list env ad remark this"
  "consume_raising no_throws env ad remark this = consume env ad remark this"
  "buy_raising no_throws env ad remark this = buy env ad remark this"
  "emote_raising no_throws env ad remark this = emote env ad remark this"
  "changeIssuer_raising no_throws env ad remark this = changeIssuer env ad remark this"
  unfolding raising_handler_defs handler_defs effect_defs
  by (auto simp: never_throw_calls[OF no_throws_calls(1)] Let_def
      split: sum.splits option.splits prod.splits)

lemma switch_no_throws:
  "switch_raising no_throws env ad remark this = switch_interaction env ad remark this"
  by (simp add: switch_raising_def switch_interaction_def mint_no_throws handlers_no_throws)

lemma remarks_no_throws:
  "consolidate_remarks_raising no_throws env ad remarks this =
     consolidate_remarks env ad remarks this"
  by (induction remarks arbitrary: this) (simp_all add: switch_no_throws split: sum.splits)

lemma consolidate_no_throws:
  "consolidate_raising no_throws env ad rmrks this = consolidate env ad rmrks this"
  by (simp add: consolidate_raising_def consolidate_def remarks_no_throws)


section \<open>The claims\<close>

text \<open>
  C1. What \<open>mint\<close> does with a remark that parses to a collection not yet stored, whose
  caller decodes and whose id is generated, over an adapter whose write succeeds: it
  rejects the mint with \<open>does not match generated ID\<close>, persisting nothing, exactly when
  the first eight characters of the generated id equal the first eight digits of the
  caller's key and the id read from offset \<open>pubkeyString.length - 8\<close> equals the last
  eight digits of the key; otherwise it persists the collection. The test of
  \<open>validateMintIds\<close> (mint.ts line 25) throws on equality, so the handler accepts on a
  mismatch and rejects on a match.
\<close>

theorem mint_rejects_exactly_when_fragments_match:
  assumes "getCollectionFromRemark env remark = Inr collection"
    and "getCollectionById ad (dbAdapter this) (c_id collection) = Inr None"
    and "decodeAddress env (rm_caller remark) = Inr pubkey"
    and "Collection_generateId env (u8aToHex env pubkey) (c_symbol collection) = Inr gid"
    and "updateCollectionMint ad (dbAdapter this) collection = Inr stored"
  shows "mint env ad remark this =
     (let pubkeyString = u8aToHex env pubkey
      in if substr gid 0 8 = substr pubkeyString 2 8 \<and>
            substring gid (int (length pubkeyString) - 8) =
              substring pubkeyString (int (length pubkeyString) - 8)
         then Inr (True,
                updateInvalidCalls env MINT remark (c_id collection)
                  (''Caller's pubkey '' @ pubkeyString @ '' ('' @ gid
                     @ '') does not match generated ID'')
                  (this\<lparr>adapterCalls := adapterCalls this @ [M_getCollectionById]\<rparr>))
         else Inr (False,
                pushInteractionChange MINT (c_id collection)
                  (this\<lparr>collections := collections this @ [collection], dbAdapter := stored,
                        adapterCalls := adapterCalls this
                           @ [M_getCollectionById, M_updateCollectionMint]\<rparr>)))"
  using assms
  by (simp add: mint_def validateMintIds_def effect_defs Let_def)

text \<open>
  A MINT by the sample address whose generated id begins with the first eight digits of
  the caller's key and ends with its last eight: the handler records the invalid call and
  calls no adapter write.
\<close>

theorem mint_rejects_matching_fragments_witness:
  "sample_u8aToHex alice_pubkey =
     ''0xd43593c715fdd31c61141abd04a99fd6822c8558854ccde39a5684e7a56da27d'' \<and>
   sample_generateId (sample_u8aToHex alice_pubkey)
       ''ABCDEFGHIJKLMNOPQRSTUVWXYZABCDEFGHIJKLMa56da27d'' =
     Inr ''d43593c715a56da27d-ABCDEFGHIJKLMNOPQRSTUVWXYZABCDEFGHIJKLMa56da27d'' \<and>
   mint sample_env (InMemoryAdapter sample_env) remark_mint_embedded
       (Consolidator_new None InMemoryAdapter_new None None) =
     Inr (True, (Consolidator_new None InMemoryAdapter_new None None)
       \<lparr> invalidCalls :=
           [\<lparr> ic_message = ''Caller's pubkey 0xd43593c715fdd31c61141abd04a99fd6822c8558854ccde39a5684e7a56da27d (d43593c715a56da27d-ABCDEFGHIJKLMNOPQRSTUVWXYZABCDEFGHIJKLMa56da27d) does not match generated ID'',
               ic_caller = alice, ic_block = 10,
               ic_object_id = ''d43593c715a56da27d-ABCDEFGHIJKLMNOPQRSTUVWXYZABCDEFGHIJKLMa56da27d'',
               ic_op_type = ''MINT'' \<rparr>],
         adapterCalls := [M_getCollectionById] \<rparr>)"
proof -
  let ?c = "\<lparr> c_block = 10, c_name = ''ABCDEFGHIJKLMNOPQRSTUVWXYZABCDEFGHIJKLMa56da27d'',
      c_max = 0, c_issuer = alice,
      c_symbol = ''ABCDEFGHIJKLMNOPQRSTUVWXYZABCDEFGHIJKLMa56da27d'',
      c_id = ''d43593c715a56da27d-ABCDEFGHIJKLMNOPQRSTUVWXYZABCDEFGHIJKLMa56da27d'',
      c_metadata = ''ipfs://ipfs/collection'', c_changes = [] \<rparr>"
  let ?st0 = "Consolidator_new None InMemoryAdapter_new None None"
  have g: "sample_generateId (sample_u8aToHex alice_pubkey)
       ''ABCDEFGHIJKLMNOPQRSTUVWXYZABCDEFGHIJKLMa56da27d'' =
     Inr ''d43593c715a56da27d-ABCDEFGHIJKLMNOPQRSTUVWXYZABCDEFGHIJKLMa56da27d''"
    by (simp add: sample_generateId_def sample_pubkey_hex substr_def substring_def)
  have a: "getCollectionFromRemark sample_env remark_mint_embedded = Inr ?c"
    by (simp add: getCollectionFromRemark_def sample_defs)
  have b: "getCollectionById (InMemoryAdapter sample_env) (dbAdapter ?st0) (c_id ?c) = Inr None"
    by (simp add: im_defs Consolidator_new_def)
  have c: "decodeAddress sample_env (rm_caller remark_mint_embedded) = Inr alice_pubkey"
    by (simp add: sample_defs)
  have d: "Collection_generateId sample_env (u8aToHex sample_env alice_pubkey) (c_symbol ?c) =
      Inr ''d43593c715a56da27d-ABCDEFGHIJKLMNOPQRSTUVWXYZABCDEFGHIJKLMa56da27d''"
    using g by (simp add: sample_env_def)
  have e: "updateCollectionMint (InMemoryAdapter sample_env) (dbAdapter ?st0) ?c =
      Inr (InMemoryAdapter_new\<lparr>im_collections := [(c_id ?c, collection_consolidated ?c None)]\<rparr>)"
    by (simp add: im_defs Consolidator_new_def)
  from mint_rejects_exactly_when_fragments_match[OF a b c d e] g
  show ?thesis
    by (simp add: sample_pubkey_hex sample_env_def substr_def substring_def
        updateInvalidCalls_def Consolidator_new_def remark_mint_embedded_def alice_def sample_OP_def)
qed

text \<open>
  C2, as amended. Over the in-memory adapter, started empty under a fresh instance: when
  a MINT remark is applied (its handler returns \<open>false\<close>), then at every later point of
  the run the store holds exactly one collection with its id, and the same remark is
  rejected as already existing, with exactly one invalid call keyed on the id and nothing
  else changed but the record of the lookup. The same holds of a MINTNFT remark and the
  item's id, provided \<open>validateMintNFT\<close> leaves the id of the item it validates as it is.
  The later point \<open>this3\<close> is any state that a run over further remarks reaches from
  the state after the first occurrence: the state in which the second occurrence arrives,
  and equally the state at the end of the whole sequence.
\<close>

theorem replayed_mint_is_rejected:
  assumes before: "consolidate_remarks env (InMemoryAdapter env) before
        (Consolidator_new ss58 InMemoryAdapter_new emitEmote emitInteraction) = Inr this1"
    and between: "consolidate_remarks env (InMemoryAdapter env) between this2 = Inr this3"
  shows "(mint env (InMemoryAdapter env) remark this1 = Inr (False, this2) \<longrightarrow>
           (\<exists>collection. getCollectionFromRemark env remark = Inr collection \<and>
              mint env (InMemoryAdapter env) remark this3 =
                Inr (True, updateInvalidCalls env MINT remark (c_id collection)
                       (''['' @ OP env MINT @ ''] Attempt to mint already existing collection'')
                       (this3\<lparr>adapterCalls := adapterCalls this3 @ [M_getCollectionById]\<rparr>)) \<and>
              length (filter (\<lambda>stored. cc_id stored = c_id collection)
                        (map snd (im_collections (dbAdapter this3)))) = 1)) \<and>
         ((\<forall>r n col n'. validateMintNFT env r n col = Inr n' \<longrightarrow> NFT_getId env n' = NFT_getId env n)
          \<longrightarrow> mintNFT env (InMemoryAdapter env) remark this1 = Inr (False, this2) \<longrightarrow>
           (\<exists>nft. NFT_fromRemark env (rm_remark remark) (rm_block remark) = Inr nft \<and>
              mintNFT env (InMemoryAdapter env) remark this3 =
                Inr (True, updateInvalidCalls env MINTNFT remark (NFT_getId env nft)
                       (''['' @ OP env MINTNFT @ ''] Attempt to mint already existing NFT'')
                       (this3\<lparr>adapterCalls := adapterCalls this3 @ [M_getNFTByIdUnique]\<rparr>)) \<and>
              length (filter (\<lambda>stored. nc_id stored = NFT_getId env nft)
                        (map snd (im_nfts (dbAdapter this3)))) = 1))"
proof -
  let ?ad = "InMemoryAdapter env"
  from remarks_grow[OF before] fresh_wf have wf1: "im_wf (dbAdapter this1)"
    by (simp add: im_grows_def)
  have later: "im_wf (dbAdapter this3) \<and>
      fst ` set (im_collections (dbAdapter this2)) \<subseteq> fst ` set (im_collections (dbAdapter this3)) \<and>
      fst ` set (im_nfts (dbAdapter this2)) \<subseteq> fst ` set (im_nfts (dbAdapter this3))"
    if "adapter_step ?ad (dbAdapter this1) (dbAdapter this2)"
    using im_step_grows[OF that] remarks_grow[OF between] wf1 by (simp add: im_grows_def)
  have m: "\<exists>collection. getCollectionFromRemark env remark = Inr collection \<and>
              mint env ?ad remark this3 =
                Inr (True, updateInvalidCalls env MINT remark (c_id collection)
                       (''['' @ OP env MINT @ ''] Attempt to mint already existing collection'')
                       (this3\<lparr>adapterCalls := adapterCalls this3 @ [M_getCollectionById]\<rparr>)) \<and>
              length (filter (\<lambda>stored. cc_id stored = c_id collection)
                        (map snd (im_collections (dbAdapter this3)))) = 1"
    if applied: "mint env ?ad remark this1 = Inr (False, this2)"
  proof -
    from mint_applied[OF applied] obtain collection where
      c: "getCollectionFromRemark env remark = Inr collection"
      and k: "c_id collection \<in> fst ` set (im_collections (dbAdapter this2))"
      by blast
    from later[OF handlers_step(1)[OF applied]] k have
      wf3: "im_wf (dbAdapter this3)"
      and k3: "c_id collection \<in> fst ` set (im_collections (dbAdapter this3))"
      by auto
    from wf3 have "distinct (map fst (im_collections (dbAdapter this3)))"
      "\<forall>(k', v') \<in> set (im_collections (dbAdapter this3)). cc_id v' = k'"
      by (simp_all add: im_wf_def)
    from stored_once[OF this k3] mint_existing[OF c k3] c show ?thesis by blast
  qed
  have n: "\<exists>nft. NFT_fromRemark env (rm_remark remark) (rm_block remark) = Inr nft \<and>
              mintNFT env ?ad remark this3 =
                Inr (True, updateInvalidCalls env MINTNFT remark (NFT_getId env nft)
                       (''['' @ OP env MINTNFT @ ''] Attempt to mint already existing NFT'')
                       (this3\<lparr>adapterCalls := adapterCalls this3 @ [M_getNFTByIdUnique]\<rparr>)) \<and>
              length (filter (\<lambda>stored. nc_id stored = NFT_getId env nft)
                        (map snd (im_nfts (dbAdapter this3)))) = 1"
    if keeps: "\<forall>r n col n'. validateMintNFT env r n col = Inr n' \<longrightarrow> NFT_getId env n' = NFT_getId env n"
      and applied: "mintNFT env ?ad remark this1 = Inr (False, this2)"
  proof -
    from mintNFT_applied[OF applied] obtain nft nft' col where
      p: "NFT_fromRemark env (rm_remark remark) (rm_block remark) = Inr nft"
      and v: "validateMintNFT env remark nft col = Inr nft'"
      and k: "NFT_getId env nft' \<in> fst ` set (im_nfts (dbAdapter this2))"
      by blast
    from keeps v have "NFT_getId env nft' = NFT_getId env nft" by blast
    with later[OF handlers_step(2)[OF applied]] k have
      wf3: "im_wf (dbAdapter this3)"
      and k3: "NFT_getId env nft \<in> fst ` set (im_nfts (dbAdapter this3))"
      by auto
    from wf3 have "distinct (map fst (im_nfts (dbAdapter this3)))"
      "\<forall>(k', v') \<in> set (im_nfts (dbAdapter this3)). nc_id v' = k'"
      by (simp_all add: im_wf_def)
    from stored_once[OF this k3] mintNFT_existing[OF p k3] p show ?thesis by blast
  qed
  from m n show ?thesis by blast
qed

text \<open>
  MINT of ALPHA replayed right after it was applied, MINTNFT of ONE replayed after an
  unknown remark, and the whole sequence through \<open>consolidate\<close>: one collection, one
  item, one invalid call for each replay.
\<close>

theorem replayed_mint_witness:
  "mint sample_env (InMemoryAdapter sample_env) remark_mint_alpha minted_alpha =
     Inr (True, minted_alpha\<lparr>invalidCalls := [duplicate_alpha],
            adapterCalls := adapterCalls minted_alpha @ [M_getCollectionById]\<rparr>) \<and>
   length (filter (\<lambda>stored. cc_id stored = ''d43593c715a56da27d-ALPHA'')
             (map snd (im_collections (dbAdapter minted_alpha)))) = 1 \<and>
   mintNFT sample_env (InMemoryAdapter sample_env) remark_mintnft_one
       (minted_one\<lparr>console := [''Unable to process this remark - wrong type: RESADD'']\<rparr>) =
     Inr (True, minted_one\<lparr>invalidCalls := [duplicate_one],
            adapterCalls := adapterCalls minted_one @ [M_getNFTByIdUnique],
            console := [''Unable to process this remark - wrong type: RESADD'']\<rparr>) \<and>
   length (filter (\<lambda>stored. nc_id stored = ''d43593c715a56da27d-ALPHA-ONE-0000000000000001'')
             (map snd (im_nfts (dbAdapter minted_one)))) = 1 \<and>
   map_sum id fst (consolidate sample_env (InMemoryAdapter sample_env)
       (Some [remark_mint_alpha, remark_mintnft_one, remark_unknown, remark_mint_alpha,
              remark_mintnft_one])
       (Consolidator_new None InMemoryAdapter_new None None)) =
     Inr \<lparr> res_nfts = [item_one], res_collections = [collection_alpha],
           res_invalid = [duplicate_alpha, duplicate_one],
           res_changes = None, res_lastBlock = None \<rparr>"
proof -
  let ?ad = "InMemoryAdapter sample_env"
  let ?st0 = "Consolidator_new None InMemoryAdapter_new None None"
  let ?st3 = "minted_one\<lparr>console := [''Unable to process this remark - wrong type: RESADD'']\<rparr>"
  have b1: "consolidate_remarks sample_env ?ad [] ?st0 = Inr ?st0" by simp
  have a1: "mint sample_env ?ad remark_mint_alpha ?st0 = Inr (False, minted_alpha)"
    by (simp add: run_defs sample_defs im_defs sample_pubkey_hex sample_values sample_states)
  have t1: "consolidate_remarks sample_env ?ad [] minted_alpha = Inr minted_alpha" by simp
  have b2: "consolidate_remarks sample_env ?ad [remark_mint_alpha] ?st0 = Inr minted_alpha"
    by (simp add: run_defs sample_defs im_defs sample_pubkey_hex sample_values sample_states)
  have a2: "mintNFT sample_env ?ad remark_mintnft_one minted_alpha = Inr (False, minted_one)"
    by (simp add: run_defs sample_defs im_defs sample_values sample_states)
  have t2: "consolidate_remarks sample_env ?ad [remark_unknown] minted_one = Inr ?st3"
    by (simp add: run_defs sample_defs sample_states)
  have k: "\<forall>r n col n'. validateMintNFT sample_env r n col = Inr n'
      \<longrightarrow> NFT_getId sample_env n' = NFT_getId sample_env n"
    by (auto simp: sample_defs split: option.splits if_splits)
  have c: "getCollectionFromRemark sample_env remark_mint_alpha = Inr alpha"
    by (simp add: getCollectionFromRemark_def sample_defs sample_values)
  have p: "NFT_fromRemark sample_env (rm_remark remark_mintnft_one) (rm_block remark_mintnft_one) =
      Inr (one\<lparr>n_owner := []\<rparr>)"
    by (simp add: sample_defs sample_states)
  have e: "map_sum id fst (consolidate sample_env ?ad
       (Some [remark_mint_alpha, remark_mintnft_one, remark_unknown, remark_mint_alpha,
              remark_mintnft_one]) ?st0) =
     Inr \<lparr> res_nfts = [item_one], res_collections = [collection_alpha],
           res_invalid = [duplicate_alpha, duplicate_one],
           res_changes = None, res_lastBlock = None \<rparr>"
    by (simp add: run_defs sample_defs im_defs sample_pubkey_hex sample_values sample_states)
  from replayed_mint_is_rejected[OF b1 t1, of remark_mint_alpha] a1 c
  have m: "mint sample_env ?ad remark_mint_alpha minted_alpha =
     Inr (True, minted_alpha\<lparr>invalidCalls := [duplicate_alpha],
            adapterCalls := adapterCalls minted_alpha @ [M_getCollectionById]\<rparr>)"
    "length (filter (\<lambda>stored. cc_id stored = ''d43593c715a56da27d-ALPHA'')
             (map snd (im_collections (dbAdapter minted_alpha)))) = 1"
    by (auto simp: updateInvalidCalls_def sample_defs sample_values sample_states
        Consolidator_new_def)
  from replayed_mint_is_rejected[OF b2 t2, of remark_mintnft_one] a2 k p
  have n: "mintNFT sample_env ?ad remark_mintnft_one ?st3 =
     Inr (True, minted_one\<lparr>invalidCalls := [duplicate_one],
            adapterCalls := adapterCalls minted_one @ [M_getNFTByIdUnique],
            console := [''Unable to process this remark - wrong type: RESADD'']\<rparr>)"
    "length (filter (\<lambda>stored. nc_id stored = ''d43593c715a56da27d-ALPHA-ONE-0000000000000001'')
             (map snd (im_nfts (dbAdapter minted_one)))) = 1"
    by (auto simp: updateInvalidCalls_def sample_defs sample_values sample_states
        Consolidator_new_def)
  from m n e show ?thesis by simp
qed

text \<open>
  The claim as stated fails for a remark whose first occurrence is not applied: the same
  MINT remark twice, by a caller that is no address, leaves no collection in the store and
  two invalid calls in the ledger, neither for an existing collection.
\<close>

theorem replayed_mint_counterexample:
  "map_sum id fst (consolidate sample_env (InMemoryAdapter sample_env)
       (Some [remark_mint_undecodable, remark_mint_undecodable])
       (Consolidator_new None InMemoryAdapter_new None None)) =
     Inr \<lparr> res_nfts = [], res_collections = [],
           res_invalid = [undecodable_alpha, undecodable_alpha],
           res_changes = None, res_lastBlock = None \<rparr>"
  by (simp add: run_defs sample_defs im_defs undecodable_alpha_def)

text \<open>
  C3. A remark whose \<open>interaction_type\<close> is the value of none of the eight \<open>OP_TYPES\<close>
  members is skipped: the switch only writes one line with \<open>console.error\<close>, adds nothing
  to the invalid-call ledger, calls no adapter method, leaves the adapter's state as it was,
  and the loop goes on with the next remark.
\<close>

theorem unknown_type_skipped:
  assumes "\<forall>op. OP env op \<noteq> rm_interaction_type remark"
  shows "let this' = this\<lparr>console := console this @
             [''Unable to process this remark - wrong type: '' @ rm_interaction_type remark]\<rparr>
         in switch_interaction env ad remark this = Inr (False, this')
          \<and> invalidCalls this' = invalidCalls this
          \<and> adapterCalls this' = adapterCalls this
          \<and> dbAdapter this' = dbAdapter this
          \<and> consolidate_remarks env ad (remark # remarks) this =
              consolidate_remarks env ad remarks this'"
proof -
  from assms have "rm_interaction_type remark \<noteq> OP env op" for op by metis
  then show ?thesis by (simp add: switch_interaction_def Let_def)
qed

text \<open>The sample remark of type RESADD, alone and twice in a row.\<close>

theorem unknown_type_skipped_witness:
  "(\<forall>op. OP sample_env op \<noteq> rm_interaction_type remark_unknown) \<and>
   switch_interaction sample_env (InMemoryAdapter sample_env) remark_unknown
       (Consolidator_new None InMemoryAdapter_new None None) =
     Inr (False, (Consolidator_new None InMemoryAdapter_new None None)
            \<lparr>console := [''Unable to process this remark - wrong type: RESADD'']\<rparr>) \<and>
   consolidate_remarks sample_env (InMemoryAdapter sample_env) [remark_unknown, remark_unknown]
       (Consolidator_new None InMemoryAdapter_new None None) =
     Inr ((Consolidator_new None InMemoryAdapter_new None None)
            \<lparr>console := [''Unable to process this remark - wrong type: RESADD'',
                         ''Unable to process this remark - wrong type: RESADD'']\<rparr>)"
proof -
  have h: "\<forall>op. OP sample_env op \<noteq> rm_interaction_type remark_unknown"
  proof
    fix op show "OP sample_env op \<noteq> rm_interaction_type remark_unknown"
      by (cases op) (simp_all add: sample_defs)
  qed
  have "consolidate_remarks sample_env (InMemoryAdapter sample_env) [remark_unknown, remark_unknown]
       (Consolidator_new None InMemoryAdapter_new None None) =
     Inr ((Consolidator_new None InMemoryAdapter_new None None)
            \<lparr>console := [''Unable to process this remark - wrong type: RESADD'',
                         ''Unable to process this remark - wrong type: RESADD'']\<rparr>)"
    using unknown_type_skipped[OF h, of "Consolidator_new None InMemoryAdapter_new None None"
        "InMemoryAdapter sample_env" "[remark_unknown]"]
      unknown_type_skipped[OF h, of "(Consolidator_new None InMemoryAdapter_new None None)
            \<lparr>console := [''Unable to process this remark - wrong type: RESADD'']\<rparr>"
        "InMemoryAdapter sample_env" "[]"]
    by (simp add: Let_def remark_unknown_def Consolidator_new_def)
  then show ?thesis
    using h unknown_type_skipped[OF h, of "Consolidator_new None InMemoryAdapter_new None None"
        "InMemoryAdapter sample_env" "[]"]
    by (simp add: Let_def remark_unknown_def Consolidator_new_def)
qed

text \<open>
  C4. \<open>list\<close>, \<open>buy\<close> and \<open>consume\<close> return \<open>true\<close> whenever they return, with or
  without an invalid call recorded; \<open>mint\<close>, \<open>mintNFT\<close>, \<open>send\<close>, \<open>emote\<close> and
  \<open>changeIssuer\<close> return \<open>false\<close> exactly when they recorded no invalid call. The loop
  does not depend on the boolean: it dispatches every remark in order, as
  \<open>dispatch_every\<close> does, which discards the boolean.
\<close>

theorem handler_booleans_do_not_steer_the_loop:
  "(list env ad remark this = Inr (b, this') \<longrightarrow> b) \<and>
   (buy env ad remark this = Inr (b, this') \<longrightarrow> b) \<and>
   (consume env ad remark this = Inr (b, this') \<longrightarrow> b) \<and>
   (mint env ad remark this = Inr (b, this') \<longrightarrow> (\<not> b \<longleftrightarrow> invalidCalls this' = invalidCalls this)) \<and>
   (mintNFT env ad remark this = Inr (b, this') \<longrightarrow> (\<not> b \<longleftrightarrow> invalidCalls this' = invalidCalls this)) \<and>
   (send env ad remark this = Inr (b, this') \<longrightarrow> (\<not> b \<longleftrightarrow> invalidCalls this' = invalidCalls this)) \<and>
   (emote env ad remark this = Inr (b, this') \<longrightarrow> (\<not> b \<longleftrightarrow> invalidCalls this' = invalidCalls this)) \<and>
   (changeIssuer env ad remark this = Inr (b, this') \<longrightarrow>
      (\<not> b \<longleftrightarrow> invalidCalls this' = invalidCalls this)) \<and>
   consolidate_remarks env ad remarks this = dispatch_every env ad remarks this"
  using always_true[of env ad remark this b this'] false_on_success[of env ad remark this b this']
    loop_ignores_boolean[of env ad remarks this]
  by blast

text \<open>
  A LIST of an item that is not stored and a LIST of the stored item both return
  \<open>true\<close>, a successful MINT returns \<open>false\<close>, and the loop over MINT and LIST is
  the dispatch of both.
\<close>

theorem handler_booleans_witness:
  "list sample_env (InMemoryAdapter sample_env) remark_list_one
       (Consolidator_new None InMemoryAdapter_new None None) =
     Inr (True, (Consolidator_new None InMemoryAdapter_new None None)
       \<lparr> invalidCalls :=
           [\<lparr> ic_message = ''[LIST] Attempting to act on non-existant NFT'', ic_caller = alice,
               ic_block = 13,
               ic_object_id = ''d43593c715a56da27d-ALPHA-ONE-0000000000000001'',
               ic_op_type = ''LIST'' \<rparr>],
         adapterCalls := [M_getNFTByIdUnique] \<rparr>) \<and>
   list sample_env (InMemoryAdapter sample_env) remark_list_one
       (Consolidator_new None store_one None None) =
     Inr (True, (Consolidator_new None store_one None None)
       \<lparr> dbAdapter := store_one\<lparr>im_nfts :=
            [(''d43593c715a56da27d-ALPHA-ONE-0000000000000001'',
              item_one\<lparr>nc_forsale := 100, nc_updatedAtBlock := Some 13\<rparr>)]\<rparr>,
         adapterCalls := [M_getNFTByIdUnique, M_updateNFTList] \<rparr>) \<and>
   mint sample_env (InMemoryAdapter sample_env) remark_mint_alpha
       (Consolidator_new None InMemoryAdapter_new None None) =
     Inr (False, (Consolidator_new None InMemoryAdapter_new None None)
       \<lparr> collections :=
           [\<lparr> c_block = 10, c_name = ''ALPHA'', c_max = 0, c_issuer = alice,
               c_symbol = ''ALPHA'', c_id = ''d43593c715a56da27d-ALPHA'',
               c_metadata = ''ipfs://ipfs/collection'', c_changes = [] \<rparr>],
         dbAdapter := \<lparr> im_nfts = [],
                         im_collections = [(''d43593c715a56da27d-ALPHA'', collection_alpha)] \<rparr>,
         adapterCalls := [M_getCollectionById, M_updateCollectionMint] \<rparr>) \<and>
   consolidate_remarks sample_env (InMemoryAdapter sample_env)
       [remark_mint_alpha, remark_list_one] (Consolidator_new None InMemoryAdapter_new None None) =
     dispatch_every sample_env (InMemoryAdapter sample_env)
       [remark_mint_alpha, remark_list_one] (Consolidator_new None InMemoryAdapter_new None None)"
proof -
  let ?ad = "InMemoryAdapter sample_env"
  have l: "list sample_env ?ad remark_list_one (Consolidator_new None store_one None None) =
     Inr (True, (Consolidator_new None store_one None None)
       \<lparr> dbAdapter := store_one\<lparr>im_nfts :=
            [(''d43593c715a56da27d-ALPHA-ONE-0000000000000001'',
              item_one\<lparr>nc_forsale := 100, nc_updatedAtBlock := Some 13\<rparr>)]\<rparr>,
         adapterCalls := [M_getNFTByIdUnique, M_updateNFTList] \<rparr>)"
    by (simp add: run_defs sample_defs im_defs)
  have m: "mint sample_env ?ad remark_mint_alpha
       (Consolidator_new None InMemoryAdapter_new None None) =
     Inr (False, (Consolidator_new None InMemoryAdapter_new None None)
       \<lparr> collections :=
           [\<lparr> c_block = 10, c_name = ''ALPHA'', c_max = 0, c_issuer = alice,
               c_symbol = ''ALPHA'', c_id = ''d43593c715a56da27d-ALPHA'',
               c_metadata = ''ipfs://ipfs/collection'', c_changes = [] \<rparr>],
         dbAdapter := \<lparr> im_nfts = [],
                         im_collections = [(''d43593c715a56da27d-ALPHA'', collection_alpha)] \<rparr>,
         adapterCalls := [M_getCollectionById, M_updateCollectionMint] \<rparr>)"
    by (simp add: run_defs sample_defs im_defs sample_pubkey_hex)
  have f: "list sample_env ?ad remark_list_one
       (Consolidator_new None InMemoryAdapter_new None None) =
     Inr (True, (Consolidator_new None InMemoryAdapter_new None None)
       \<lparr> invalidCalls :=
           [\<lparr> ic_message = ''[LIST] Attempting to act on non-existant NFT'', ic_caller = alice,
               ic_block = 13,
               ic_object_id = ''d43593c715a56da27d-ALPHA-ONE-0000000000000001'',
               ic_op_type = ''LIST'' \<rparr>],
         adapterCalls := [M_getNFTByIdUnique] \<rparr>)"
    by (simp add: run_defs sample_defs im_defs)
  from f l m handler_booleans_do_not_steer_the_loop[where env=sample_env and ad="?ad"
      and this="Consolidator_new None InMemoryAdapter_new None None"
      and remarks="[remark_mint_alpha, remark_list_one]"]
  show ?thesis by simp
qed




text \<open>
  C6. The snapshot's item set is empty when the adapter has no \<open>getAllNFTs\<close> and is
  what \<open>getAllNFTs\<close> returns on the adapter's state after the loop otherwise; likewise
  for the collection set and \<open>getAllCollections\<close>. In both cases the snapshot carries the
  invalid-call ledger as it is after the loop and, under \<open>emitInteractionChanges\<close>, the
  interaction-change log.
\<close>

theorem snapshot_of_bulk_readers:
  assumes "consolidate env ad rmrks this = Inr (snapshot, this')"
  shows "\<exists>this1. consolidate_remarks env ad (case rmrks of Some rs \<Rightarrow> rs | None \<Rightarrow> []) this =
             Inr this1 \<and>
           (case getAllNFTs ad of
              None \<Rightarrow> res_nfts snapshot = []
            | Some f \<Rightarrow> f (dbAdapter this1) = Inr (res_nfts snapshot)) \<and>
           (case getAllCollections ad of
              None \<Rightarrow> res_collections snapshot = []
            | Some f \<Rightarrow> f (dbAdapter this1) = Inr (res_collections snapshot)) \<and>
           res_invalid snapshot = invalidCalls this1 \<and>
           res_changes snapshot =
             (if emitInteractionChanges this then Some (interactionChanges this1) else None)"
proof -
  from consolidate_result[OF assms] obtain this1 where
    l: "consolidate_remarks env ad (case rmrks of Some rs \<Rightarrow> rs | None \<Rightarrow> []) this = Inr this1"
    and r: "case getAllNFTs ad of None \<Rightarrow> res_nfts snapshot = []
          | Some f \<Rightarrow> f (dbAdapter this1) = Inr (res_nfts snapshot)"
      "case getAllCollections ad of None \<Rightarrow> res_collections snapshot = []
          | Some f \<Rightarrow> f (dbAdapter this1) = Inr (res_collections snapshot)"
      "res_invalid snapshot = invalidCalls this1"
      "res_changes snapshot =
         (if emitInteractionChanges this1 then Some (interactionChanges this1) else None)"
    by blast
  from remarks_config[OF l] have "emitInteractionChanges this1 = emitInteractionChanges this"
    by (simp add: config_kept_def)
  with l r show ?thesis by (intro exI[of _ this1]) simp
qed

text \<open>
  The same two MINT remarks over the adapter without bulk readers and over the in-memory
  adapter: the store holds ALPHA in both runs, the snapshot lists it only in the second.
\<close>

theorem snapshot_of_bulk_readers_witness:
  "map_sum id fst (consolidate sample_env (WriteOnlyAdapter sample_env)
       (Some [remark_mint_alpha, remark_mint_alpha])
       (Consolidator_new None InMemoryAdapter_new None (Some True))) =
     Inr \<lparr> res_nfts = [], res_collections = [], res_invalid = [duplicate_alpha],
           res_changes = Some [(MINT, ''d43593c715a56da27d-ALPHA'')], res_lastBlock = None \<rparr> \<and>
   map_sum id fst (consolidate sample_env (InMemoryAdapter sample_env)
       (Some [remark_mint_alpha, remark_mint_alpha])
       (Consolidator_new None InMemoryAdapter_new None (Some True))) =
     Inr \<lparr> res_nfts = [], res_collections = [collection_alpha], res_invalid = [duplicate_alpha],
           res_changes = Some [(MINT, ''d43593c715a56da27d-ALPHA'')], res_lastBlock = None \<rparr>"
proof -
  let ?st0 = "Consolidator_new None InMemoryAdapter_new None (Some True)"
  let ?st1 = "?st0\<lparr> invalidCalls := [duplicate_alpha], collections := [alpha],
      dbAdapter := store_alpha, interactionChanges := [(MINT, ''d43593c715a56da27d-ALPHA'')],
      adapterCalls := [M_getCollectionById, M_updateCollectionMint, M_getCollectionById] \<rparr>"
  let ?snapshot = "\<lparr> res_nfts = [], res_collections = [], res_invalid = [duplicate_alpha],
      res_changes = Some [(MINT, ''d43593c715a56da27d-ALPHA'')], res_lastBlock = None \<rparr>"
  have w: "consolidate sample_env (WriteOnlyAdapter sample_env)
       (Some [remark_mint_alpha, remark_mint_alpha]) ?st0 = Inr (?snapshot, ?st1)"
    by (simp add: run_defs sample_defs im_defs sample_pubkey_hex sample_values)
  have m: "consolidate sample_env (InMemoryAdapter sample_env)
       (Some [remark_mint_alpha, remark_mint_alpha]) ?st0 =
     Inr (?snapshot\<lparr>res_collections := [collection_alpha]\<rparr>,
          ?st1\<lparr>adapterCalls := [M_getCollectionById, M_updateCollectionMint,
             M_getCollectionById, M_getAllNFTs, M_getAllCollections]\<rparr>)"
    by (simp add: run_defs sample_defs im_defs sample_pubkey_hex sample_values)
  from snapshot_of_bulk_readers[OF w] snapshot_of_bulk_readers[OF m] w m
  show ?thesis by simp
qed




text \<open>
  C9. Two calls of \<open>consolidate\<close> on one instance: the ledgers are only appended to, and
  the second snapshot holds the first call's invalid calls (and, under
  \<open>emitInteractionChanges\<close>, its interaction changes) followed by exactly the entries the
  second call's remarks produce, that is, those a run from emptied ledgers would return.
\<close>

theorem ledgers_accumulate_across_runs:
  assumes "consolidate env ad rmrks1 this = Inr (snapshot1, this1)"
    and "consolidate env ad rmrks2 this1 = Inr (snapshot2, this2)"
  shows "\<exists>new_invalid new_changes.
           res_invalid snapshot2 = res_invalid snapshot1 @ new_invalid \<and>
           res_changes snapshot1 =
             (if emitInteractionChanges this then Some (interactionChanges this1) else None) \<and>
           res_changes snapshot2 =
             (if emitInteractionChanges this
              then Some (interactionChanges this1 @ new_changes) else None) \<and>
           prefix (invalidCalls this) (res_invalid snapshot1) \<and>
           prefix (interactionChanges this) (interactionChanges this1) \<and>
           map_sum id (\<lambda>(snapshot, this'). (res_invalid snapshot, interactionChanges this'))
               (consolidate env ad rmrks2 (this1\<lparr>invalidCalls := [], interactionChanges := []\<rparr>)) =
             Inr (new_invalid, new_changes)"
proof -
  let ?reset = "\<lambda>t. t\<lparr>invalidCalls := [], interactionChanges := []\<rparr>"
  from consolidate_result[OF assms(1)] obtain l1 where
    l1: "consolidate_remarks env ad (case rmrks1 of Some rs \<Rightarrow> rs | None \<Rightarrow> []) this = Inr l1"
    and i1: "invalidCalls this1 = invalidCalls l1" "interactionChanges this1 = interactionChanges l1"
      "emitInteractionChanges this1 = emitInteractionChanges l1"
      "res_invalid snapshot1 = invalidCalls l1"
      "res_changes snapshot1 =
         (if emitInteractionChanges l1 then Some (interactionChanges l1) else None)"
    by blast
  from remarks_config[OF l1] have e1: "emitInteractionChanges l1 = emitInteractionChanges this"
    by (simp add: config_kept_def)
  have "consolidate_remarks env ad (case rmrks1 of Some rs \<Rightarrow> rs | None \<Rightarrow> [])
          (with_ledgers (invalidCalls this) (interactionChanges this) (?reset this)) = Inr l1"
    using l1 ledgers_split[of this] by simp
  then obtain l0 where "l1 = with_ledgers (invalidCalls this) (interactionChanges this) l0"
    unfolding remarks_frame
    by (cases "consolidate_remarks env ad (case rmrks1 of Some rs \<Rightarrow> rs | None \<Rightarrow> []) (?reset this)")
      auto
  then have p: "prefix (invalidCalls this) (invalidCalls l1)"
    "prefix (interactionChanges this) (interactionChanges l1)"
    by (simp_all add: with_ledgers_def)
  have "consolidate env ad rmrks2
          (with_ledgers (invalidCalls this1) (interactionChanges this1) (?reset this1)) =
        Inr (snapshot2, this2)"
    using assms(2) ledgers_split[of this1] by simp
  then obtain snapshot0 this0 where
    r0: "consolidate env ad rmrks2 (?reset this1) = Inr (snapshot0, this0)"
    and s2: "snapshot2 = snapshot0\<lparr>res_invalid := invalidCalls this1 @ res_invalid snapshot0,
               res_changes := map_option ((@) (interactionChanges this1)) (res_changes snapshot0)\<rparr>"
    and t2: "this2 = with_ledgers (invalidCalls this1) (interactionChanges this1) this0"
    unfolding consolidate_frame
    by (cases "consolidate env ad rmrks2 (?reset this1)") auto
  from consolidate_result[OF r0] obtain l2 where
    l2: "consolidate_remarks env ad (case rmrks2 of Some rs \<Rightarrow> rs | None \<Rightarrow> []) (?reset this1) = Inr l2"
    and i2: "interactionChanges this0 = interactionChanges l2"
      "emitInteractionChanges this0 = emitInteractionChanges l2"
      "res_changes snapshot0 =
         (if emitInteractionChanges l2 then Some (interactionChanges l2) else None)"
    by blast
  from remarks_config[OF l2] i1 e1 have e2: "emitInteractionChanges l2 = emitInteractionChanges this"
    by (simp add: config_kept_def)
  show ?thesis
    using r0 s2 i1 i2 e1 e2 p
    by (intro exI[of _ "res_invalid snapshot0"] exI[of _ "interactionChanges this0"]) simp
qed

text \<open>MINT of ALPHA twice in a first call, and once more in a second call.\<close>

theorem ledgers_accumulate_witness:
  "\<exists>snapshot1 this1 snapshot2 this2.
     consolidate sample_env (InMemoryAdapter sample_env) (Some [remark_mint_alpha, remark_mint_alpha])
         (Consolidator_new None InMemoryAdapter_new None (Some True)) = Inr (snapshot1, this1) \<and>
     consolidate sample_env (InMemoryAdapter sample_env) (Some [remark_mint_alpha]) this1 =
       Inr (snapshot2, this2) \<and>
     res_invalid snapshot1 = [duplicate_alpha] \<and>
     res_invalid snapshot2 = [duplicate_alpha, duplicate_alpha] \<and>
     res_changes snapshot1 = Some [(MINT, ''d43593c715a56da27d-ALPHA'')] \<and>
     res_changes snapshot2 = Some [(MINT, ''d43593c715a56da27d-ALPHA'')] \<and>
     map_sum id (\<lambda>(snapshot, this'). (res_invalid snapshot, interactionChanges this'))
         (consolidate sample_env (InMemoryAdapter sample_env) (Some [remark_mint_alpha])
            (this1\<lparr>invalidCalls := [], interactionChanges := []\<rparr>)) =
       Inr ([duplicate_alpha], [])"
proof -
  let ?ad = "InMemoryAdapter sample_env"
  let ?st0 = "Consolidator_new None InMemoryAdapter_new None (Some True)"
  let ?st1 = "?st0\<lparr> invalidCalls := [duplicate_alpha], collections := [alpha],
      dbAdapter := store_alpha, interactionChanges := [(MINT, ''d43593c715a56da27d-ALPHA'')],
      adapterCalls := [M_getCollectionById, M_updateCollectionMint, M_getCollectionById,
                       M_getAllNFTs, M_getAllCollections] \<rparr>"
  let ?snapshot1 = "\<lparr> res_nfts = [], res_collections = [collection_alpha],
      res_invalid = [duplicate_alpha],
      res_changes = Some [(MINT, ''d43593c715a56da27d-ALPHA'')], res_lastBlock = None \<rparr>"
  let ?st2 = "?st1\<lparr> invalidCalls := [duplicate_alpha, duplicate_alpha],
      adapterCalls := [M_getCollectionById, M_updateCollectionMint, M_getCollectionById,
                       M_getAllNFTs, M_getAllCollections, M_getCollectionById,
                       M_getAllNFTs, M_getAllCollections] \<rparr>"
  let ?snapshot2 = "?snapshot1\<lparr> res_invalid := [duplicate_alpha, duplicate_alpha] \<rparr>"
  have r1: "consolidate sample_env ?ad (Some [remark_mint_alpha, remark_mint_alpha]) ?st0 =
      Inr (?snapshot1, ?st1)"
    by (simp add: run_defs sample_defs im_defs sample_pubkey_hex sample_values)
  have r2: "consolidate sample_env ?ad (Some [remark_mint_alpha]) ?st1 = Inr (?snapshot2, ?st2)"
    by (simp add: run_defs sample_defs im_defs sample_pubkey_hex sample_values)
  from ledgers_accumulate_across_runs[OF r1 r2] obtain new_invalid new_changes where
    n: "res_invalid ?snapshot2 = res_invalid ?snapshot1 @ new_invalid"
      "res_changes ?snapshot2 =
         (if emitInteractionChanges ?st0
          then Some (interactionChanges ?st1 @ new_changes) else None)"
      "map_sum id (\<lambda>(snapshot, this'). (res_invalid snapshot, interactionChanges this'))
         (consolidate sample_env ?ad (Some [remark_mint_alpha])
            (?st1\<lparr>invalidCalls := [], interactionChanges := []\<rparr>)) =
       Inr (new_invalid, new_changes)"
    by blast
  from n(1) have i: "new_invalid = [duplicate_alpha]" by simp
  from n(2) have c: "new_changes = []" by (simp add: Consolidator_new_def)
  show ?thesis
    using r1 r2 n(3) unfolding i c
    by (intro exI[of _ ?snapshot1] exI[of _ ?st1] exI[of _ ?snapshot2] exI[of _ ?st2]) simp
qed

text \<open>
  C10. A snapshot never has \<open>lastBlock\<close>, for every argument of \<open>consolidate\<close>; it has
  \<open>changes\<close> exactly when \<open>emitInteractionChanges\<close> is set, which a run does not
  change and which the constructor sets exactly when the option was passed as \<open>true\<close>.
\<close>

theorem snapshot_optional_fields:
  assumes "consolidate env ad rmrks this = Inr (snapshot, this')"
  shows "res_lastBlock snapshot = None \<and>
         (res_changes snapshot \<noteq> None \<longleftrightarrow> emitInteractionChanges this) \<and>
         emitInteractionChanges this' = emitInteractionChanges this \<and>
         (emitInteractionChanges (Consolidator_new ss58 adapter emitEmote emitInteraction)
            \<longleftrightarrow> emitInteraction = Some True)"
proof -
  from consolidate_result[OF assms] obtain this1 where
    l: "consolidate_remarks env ad (case rmrks of Some rs \<Rightarrow> rs | None \<Rightarrow> []) this = Inr this1"
    and r: "emitInteractionChanges this' = emitInteractionChanges this1"
      "res_changes snapshot =
         (if emitInteractionChanges this1 then Some (interactionChanges this1) else None)"
      "res_lastBlock snapshot = None"
    by blast
  from remarks_config[OF l] have "emitInteractionChanges this1 = emitInteractionChanges this"
    by (simp add: config_kept_def)
  with r show ?thesis by (auto simp: Consolidator_new_def split: option.splits)
qed

text \<open>An omitted remark sequence without the option, and an empty one with it.\<close>

theorem snapshot_optional_fields_witness:
  "consolidate sample_env (InMemoryAdapter sample_env) None
       (Consolidator_new None InMemoryAdapter_new None None) =
     Inr (\<lparr> res_nfts = [], res_collections = [], res_invalid = [], res_changes = None,
            res_lastBlock = None \<rparr>,
          (Consolidator_new None InMemoryAdapter_new None None)
            \<lparr>adapterCalls := [M_getAllNFTs, M_getAllCollections]\<rparr>) \<and>
   consolidate sample_env (InMemoryAdapter sample_env) (Some [])
       (Consolidator_new None InMemoryAdapter_new None (Some True)) =
     Inr (\<lparr> res_nfts = [], res_collections = [], res_invalid = [], res_changes = Some [],
            res_lastBlock = None \<rparr>,
          (Consolidator_new None InMemoryAdapter_new None (Some True))
            \<lparr>adapterCalls := [M_getAllNFTs, M_getAllCollections]\<rparr>)"
proof -
  have a: "consolidate sample_env (InMemoryAdapter sample_env) None
       (Consolidator_new None InMemoryAdapter_new None None) =
     Inr (\<lparr> res_nfts = [], res_collections = [], res_invalid = [], res_changes = None,
            res_lastBlock = None \<rparr>,
          (Consolidator_new None InMemoryAdapter_new None None)
            \<lparr>adapterCalls := [M_getAllNFTs, M_getAllCollections]\<rparr>)"
    by (simp add: run_defs im_defs)
  have b: "consolidate sample_env (InMemoryAdapter sample_env) (Some [])
       (Consolidator_new None InMemoryAdapter_new None (Some True)) =
     Inr (\<lparr> res_nfts = [], res_collections = [], res_invalid = [], res_changes = Some [],
            res_lastBlock = None \<rparr>,
          (Consolidator_new None InMemoryAdapter_new None (Some True))
            \<lparr>adapterCalls := [M_getAllNFTs, M_getAllCollections]\<rparr>)"
    by (simp add: run_defs im_defs)
  from snapshot_optional_fields[OF a] snapshot_optional_fields[OF b] a b
  show ?thesis by simp
qed

end
